theory Spec2Isabelle
  imports Complex_Main "HOL-Library.Char_ord" "HOL-Library.List_Lexorder" "HOL-Library.Log_Nat"
begin

section \<open>Conventions of the embedding\<close>

text \<open>
  The Python sources are embedded function by function.  A Python float is a
  \<^typ>\<open>real\<close> number; infinities and NaN are not represented.  In \<^verbatim>\<open>utils/trainer.py\<close> and
  \<^verbatim>\<open>utils/data_loader.py\<close> every float literal and every arithmetic operation on floats
  is rounded to a double (see \<open>fl64\<close> below): early stopping, the cut of the split and
  the clamp of the deviation depend on the rounding.  In \<^verbatim>\<open>explain_model.py\<close> the
  arithmetic is the exact one.  Python strings are \<^typ>\<open>string\<close>; the order on strings is
  the lexicographic order on characters, which is the order Python's \<^verbatim>\<open>sorted\<close> uses on
  \<^verbatim>\<open>str\<close>.  A method whose Python name starts with an underscore keeps its name without
  the underscore.  Console output to standard error and progress printing are not
  modelled.
\<close>

subsection \<open>Doubles\<close>

text \<open>
  \<open>fl64 x\<close> is the double nearest to \<open>x\<close>: \<open>x\<close> is scaled by the unit in the last place
  of its binade to a significand of 53 bits, which is rounded to the nearest integer,
  ties to the even one (IEEE 754 binary64, round to nearest even).  The exponent range is
  unbounded: overflow and subnormal numbers are not modelled.  \<open>ilog2 x\<close> is the exponent
  of the binade of a positive \<open>x\<close>: the integer \<open>e\<close> with \<^verbatim>\<open>2^e <= x < 2^(e+1)\<close>.
\<close>

definition round_half_even :: "real \<Rightarrow> int" where
  "round_half_even y =
     (let r = \<lfloor>y\<rfloor>; d = y - of_int r
      in if d < 1 / 2 then r else if d > 1 / 2 then r + 1 else if even r then r else r + 1)"

definition ilog2 :: "real \<Rightarrow> int" where
  "ilog2 x = (if 1 \<le> x then bitlen \<lfloor>x\<rfloor> - 1 else - bitlen (\<lceil>1 / x\<rceil> - 1))"

definition pow2 :: "int \<Rightarrow> real" where
  "pow2 e = (if 0 \<le> e then 2 ^ nat e else 1 / 2 ^ nat (- e))"

definition fl64 :: "real \<Rightarrow> real" where
  "fl64 x =
     (if x = 0 then 0
      else (let u = pow2 (ilog2 \<bar>x\<bar> - 52)
            in sgn x * of_int (round_half_even (\<bar>x\<bar> / u)) * u))"

subsection \<open>Exceptions\<close>

text \<open>
  Every constructor is a subclass of Python's \<^verbatim>\<open>Exception\<close>; the argument is the
  message \<^verbatim>\<open>str(e)\<close>.
\<close>

datatype exn =
    JSONDecodeError string
  | AttributeError string
  | TypeError string
  | ValueError string
  | IndexError string
  | KeyError string
  | ZeroDivisionError string
  | RuntimeError string

fun str_exn :: "exn \<Rightarrow> string" where
  "str_exn (JSONDecodeError m) = m"
| "str_exn (AttributeError m) = m"
| "str_exn (TypeError m) = m"
| "str_exn (ValueError m) = m"
| "str_exn (IndexError m) = m"
| "str_exn (KeyError m) = m"
| "str_exn (ZeroDivisionError m) = m"
| "str_exn (RuntimeError m) = m"

section \<open>utils/trainer.py\<close>

subsection \<open>Tensors, modules and state dictionaries\<close>

text \<open>
  A tensor is an object with a storage; the storages live in a store indexed by
  addresses.  A module owns named parameter tensors.  \<^verbatim>\<open>Module.state_dict()\<close> builds a
  new ordered dictionary from parameter names to tensors that share the storage of the
  live parameters, and \<^verbatim>\<open>dict.copy()\<close> is Python's shallow copy: a new dictionary holding
  the same tensor objects.  \<^verbatim>\<open>Module.load_state_dict(sd)\<close> copies, name by name, the
  contents of the tensor in \<^verbatim>\<open>sd\<close> into the storage of the parameter of that name.
\<close>

type_synonym addr = nat
type_synonym tensor = "real list"
type_synonym store = "addr \<Rightarrow> tensor"
type_synonym state_dict_t = "(string \<times> addr) list"

record Module =
  named_parameters :: "(string \<times> addr) list"

definition state_dict :: "Module \<Rightarrow> state_dict_t" where
  "state_dict m = named_parameters m"

definition dict_copy :: "('k \<times> 'v) list \<Rightarrow> ('k \<times> 'v) list" where
  "dict_copy d = d"

text \<open>
  \<^verbatim>\<open>load_state_dict\<close> is strict: a dictionary whose keys are not exactly the parameter
  names raises; otherwise the contents are copied in place, entry by entry.
\<close>

fun copy_entries :: "Module \<Rightarrow> state_dict_t \<Rightarrow> store \<Rightarrow> store" where
  "copy_entries m [] h = h"
| "copy_entries m ((name, src) # rest) h =
     (case map_of (named_parameters m) name of
        None \<Rightarrow> copy_entries m rest h
      | Some dst \<Rightarrow> copy_entries m rest (h(dst := h src)))"

definition load_state_dict :: "Module \<Rightarrow> state_dict_t \<Rightarrow> store \<Rightarrow> exn + store" where
  "load_state_dict m sd h =
     (if set (map fst sd) = set (map fst (named_parameters m))
      then Inr (copy_entries m sd h)
      else Inl (RuntimeError ''Error(s) in loading state_dict''))"

definition parameter_values :: "Module \<Rightarrow> store \<Rightarrow> (string \<times> tensor) list" where
  "parameter_values m h = map (\<lambda>(name, a). (name, h a)) (named_parameters m)"

subsection \<open>EarlyStopping\<close>

record EarlyStopping =
  patience :: int
  min_delta :: real
  mode :: string
  counter :: int
  best_score :: "real option"
  should_stop :: bool
  best_state :: "state_dict_t option"

definition EarlyStopping_init :: "int \<Rightarrow> real \<Rightarrow> string \<Rightarrow> EarlyStopping" where
  "EarlyStopping_init p d md =
     \<lparr>patience = p, min_delta = d, mode = md, counter = 0, best_score = None,
      should_stop = False, best_state = None\<rparr>"

definition is_improved :: "EarlyStopping \<Rightarrow> real \<Rightarrow> bool" where
  "is_improved es score =
     (case best_score es of
        None \<Rightarrow> True
      | Some b \<Rightarrow>
          if mode es = ''min'' then score < fl64 (b - min_delta es)
          else score > fl64 (b + min_delta es))"

text \<open>\<^verbatim>\<open>EarlyStopping.__call__\<close>: the returned pair is the return value and the updated object.\<close>

definition EarlyStopping_call :: "EarlyStopping \<Rightarrow> real \<Rightarrow> Module \<Rightarrow> bool \<times> EarlyStopping" where
  "EarlyStopping_call es score model =
     (if best_score es = None then
        (False, es\<lparr>best_score := Some score,
                   best_state := Some (dict_copy (state_dict model))\<rparr>)
      else if is_improved es score then
        (let es' = es\<lparr>best_score := Some score,
                       best_state := Some (dict_copy (state_dict model)),
                       counter := 0\<rparr>
         in (should_stop es', es'))
      else
        (let es1 = es\<lparr>counter := counter es + 1\<rparr>;
             es2 = (if counter es1 \<ge> patience es1 then es1\<lparr>should_stop := True\<rparr> else es1)
         in (should_stop es2, es2)))"

text \<open>One call per epoch on a sequence of scores: the \<^verbatim>\<open>should_stop\<close> flag after each call.\<close>

fun stopped_trace :: "EarlyStopping \<Rightarrow> Module \<Rightarrow> real list \<Rightarrow> bool list" where
  "stopped_trace es model [] = []"
| "stopped_trace es model (s # ss) =
     (let es' = snd (EarlyStopping_call es s model)
      in should_stop es' # stopped_trace es' model ss)"

subsection \<open>ProductionTrainer\<close>

text \<open>
  The torch and numpy objects the trainer is given or creates are parameters of the
  model.  \<open>'g\<close> is the state of the numpy generator, \<open>'o\<close> the state of the optimizer,
  of the learning-rate scheduler and of torch's random generator.  \<^verbatim>\<open>_train_epoch\<close> and
  \<^verbatim>\<open>_validate_epoch\<close> run the caller's model, criterion and optimizer over the batches:
  the training pass returns the mean loss and updates the optimizer state and, in place,
  the storages of the parameters; the validation pass only reads.  Either may raise.
\<close>

record ('g, 'o) lib =
  default_rng :: "int \<Rightarrow> 'g"
  permutation :: "'g \<Rightarrow> nat \<Rightarrow> nat list \<times> 'g"
  make_optimizer :: "Module \<Rightarrow> real \<Rightarrow> 'o"
  get_lr :: "'o \<Rightarrow> real"
  scheduler_step :: "'o \<Rightarrow> real \<Rightarrow> 'o"
  train_epoch :: "'o \<Rightarrow> store \<Rightarrow> exn + (real \<times> 'o \<times> store)"
  validate_epoch :: "'o \<Rightarrow> store \<Rightarrow> exn + real"

record history_t =
  train_loss :: "real list"
  val_loss :: "real list"
  learning_rate :: "real list"

record ('g, 'o) ProductionTrainer =
  seed :: int
  rng :: 'g
  verbose :: bool
  model :: Module
  optimizer :: 'o
  early_stopping :: EarlyStopping
  batch_size :: int
  epochs :: int
  history :: history_t

definition ProductionTrainer_init ::
  "('g, 'o) lib \<Rightarrow> Module \<Rightarrow> real \<Rightarrow> int \<Rightarrow> int \<Rightarrow> int \<Rightarrow> int \<Rightarrow> bool \<Rightarrow> ('g, 'o) ProductionTrainer" where
  "ProductionTrainer_init L mdl learning_rate_arg batch_size_arg epochs_arg patience_arg seed_arg verbose_arg =
     \<lparr>seed = seed_arg,
      rng = default_rng L seed_arg,
      verbose = verbose_arg,
      model = mdl,
      optimizer = make_optimizer L mdl learning_rate_arg,
      early_stopping = EarlyStopping_init patience_arg (fl64 0.0001) ''min'',
      batch_size = batch_size_arg,
      epochs = epochs_arg,
      history = \<lparr>train_loss = [], val_loss = [], learning_rate = []\<rparr>\<rparr>"

subsubsection \<open>prepare_data\<close>

text \<open>Python's \<^verbatim>\<open>int(x)\<close> on a float truncates towards zero.\<close>

definition py_int :: "real \<Rightarrow> int" where
  "py_int x = (if 0 \<le> x then \<lfloor>x\<rfloor> else \<lceil>x\<rceil>)"

text \<open>The slices \<^verbatim>\<open>xs[:k]\<close> and \<^verbatim>\<open>xs[k:]\<close>; a negative \<^verbatim>\<open>k\<close> counts from the end.\<close>

definition slice_to :: "'a list \<Rightarrow> int \<Rightarrow> 'a list" where
  "slice_to xs k = (if 0 \<le> k then take (nat k) xs else take (nat (int (length xs) + k)) xs)"

definition slice_from :: "'a list \<Rightarrow> int \<Rightarrow> 'a list" where
  "slice_from xs k = (if 0 \<le> k then drop (nat k) xs else drop (nat (int (length xs) + k)) xs)"

text \<open>Fancy indexing \<^verbatim>\<open>xs[indices]\<close> of a numpy array by an index array.\<close>

definition take_rows :: "'a list \<Rightarrow> nat list \<Rightarrow> exn + 'a list" where
  "take_rows xs indices =
     (if list_all (\<lambda>i. i < length xs) indices then Inr (map (\<lambda>i. xs ! i) indices)
      else Inl (IndexError ''index is out of bounds''))"

text \<open>\<^verbatim>\<open>TensorDataset\<close> asserts that its tensors have the same number of rows.\<close>

definition TensorDataset :: "'x list \<Rightarrow> 'y list \<Rightarrow> exn + ('x \<times> 'y) list" where
  "TensorDataset xs ys =
     (if length xs = length ys then Inr (zip xs ys)
      else Inl (RuntimeError ''Size mismatch between tensors''))"

record ('x, 'y) DataLoader =
  dataset :: "('x \<times> 'y) list"
  loader_batch_size :: int
  shuffle :: bool

text \<open>
  The constructor of \<^verbatim>\<open>DataLoader\<close>: with \<^verbatim>\<open>shuffle=True\<close> it builds a \<^verbatim>\<open>RandomSampler\<close>,
  which raises on an empty dataset; then the \<^verbatim>\<open>BatchSampler\<close> raises on a batch size that
  is not positive.  The number of workers is not modelled.
\<close>

definition DataLoader_init ::
  "('x \<times> 'y) list \<Rightarrow> int \<Rightarrow> bool \<Rightarrow> exn + ('x, 'y) DataLoader" where
  "DataLoader_init ds bs shuffle_arg =
     (if shuffle_arg \<and> ds = [] then
        Inl (ValueError ''num_samples should be a positive integer value, but got num_samples=0'')
      else if bs \<le> 0 then
        Inl (ValueError ''batch_size should be a positive integer value'')
      else Inr \<lparr>dataset = ds, loader_batch_size = bs, shuffle = shuffle_arg\<rparr>)"

definition prepare_data ::
  "('g, 'o) lib \<Rightarrow> ('g, 'o) ProductionTrainer \<Rightarrow> 'x list \<Rightarrow> 'y list \<Rightarrow> real \<Rightarrow>
     exn + ((('x, 'y) DataLoader \<times> ('x, 'y) DataLoader) \<times> ('g, 'o) ProductionTrainer)" where
  "prepare_data L tr features labels val_split =
     (let (indices, g') = permutation L (rng tr) (length features);
          tr' = tr\<lparr>rng := g'\<rparr>
      in case take_rows features indices of Inl e \<Rightarrow> Inl e | Inr features' \<Rightarrow>
         (case take_rows labels indices of Inl e \<Rightarrow> Inl e | Inr labels' \<Rightarrow>
         (let split_idx = py_int (fl64 (real (length features') * fl64 (1 - val_split)));
              x_train = slice_to features' split_idx; x_val = slice_from features' split_idx;
              y_train = slice_to labels' split_idx; y_val = slice_from labels' split_idx
          in case TensorDataset x_train y_train of Inl e \<Rightarrow> Inl e | Inr train_ds \<Rightarrow>
             (case TensorDataset x_val y_val of Inl e \<Rightarrow> Inl e | Inr val_ds \<Rightarrow>
             (case DataLoader_init train_ds (batch_size tr') True of Inl e \<Rightarrow> Inl e | Inr train_loader \<Rightarrow>
             (case DataLoader_init val_ds (batch_size tr') False of Inl e \<Rightarrow> Inl e | Inr val_loader \<Rightarrow>
                Inr ((train_loader, val_loader), tr')))))))"

text \<open>
  The index partition of a table of \<open>n\<close> rows: the split of the table whose row \<open>i\<close> is
  \<open>i\<close> itself, read off the two datasets.
\<close>

definition index_partition ::
  "('g, 'o) lib \<Rightarrow> ('g, 'o) ProductionTrainer \<Rightarrow> nat \<Rightarrow> real \<Rightarrow> exn + (nat list \<times> nat list)" where
  "index_partition L tr n val_split =
     (case prepare_data L tr [0..<n] [0..<n] val_split of
        Inl e \<Rightarrow> Inl e
      | Inr ((train_loader, val_loader), tr') \<Rightarrow>
          Inr (map fst (dataset train_loader), map fst (dataset val_loader)))"

subsubsection \<open>train\<close>

definition update_training_state ::
  "('g, 'o) lib \<Rightarrow> ('g, 'o) ProductionTrainer \<Rightarrow> nat \<Rightarrow> real \<Rightarrow> real \<Rightarrow> bool \<times> ('g, 'o) ProductionTrainer" where
  "update_training_state L tr epoch train_loss_v val_loss_v =
     (let current_lr = get_lr L (optimizer tr);
          hist = history tr;
          tr1 = tr\<lparr>history := \<lparr>train_loss = train_loss hist @ [train_loss_v],
                                 val_loss = val_loss hist @ [val_loss_v],
                                 learning_rate = learning_rate hist @ [current_lr]\<rparr>\<rparr>;
          tr2 = tr1\<lparr>optimizer := scheduler_step L (optimizer tr1) val_loss_v\<rparr>;
          (stop, es') = EarlyStopping_call (early_stopping tr2) val_loss_v (model tr2);
          tr3 = tr2\<lparr>early_stopping := es'\<rparr>
      in if stop then (True, tr3) else (False, tr3))"

text \<open>
  The epoch loop \<^verbatim>\<open>for epoch in range(self.epochs)\<close> with its \<^verbatim>\<open>break\<close>: the first
  argument counts the epochs that remain, the second is \<^verbatim>\<open>epoch\<close>.
\<close>

fun train_loop ::
  "('g, 'o) lib \<Rightarrow> nat \<Rightarrow> nat \<Rightarrow> ('g, 'o) ProductionTrainer \<times> store \<Rightarrow>
     exn + (('g, 'o) ProductionTrainer \<times> store)" where
  "train_loop L 0 epoch (tr, h) = Inr (tr, h)"
| "train_loop L (Suc k) epoch (tr, h) =
     (case train_epoch L (optimizer tr) h of
        Inl e \<Rightarrow> Inl e
      | Inr (train_loss_v, opt1, h1) \<Rightarrow>
          (case validate_epoch L opt1 h1 of
             Inl e \<Rightarrow> Inl e
           | Inr val_loss_v \<Rightarrow>
               (let (stop, tr2) =
                      update_training_state L (tr\<lparr>optimizer := opt1\<rparr>) epoch train_loss_v val_loss_v
                in if stop then Inr (tr2, h1) else train_loop L k (Suc epoch) (tr2, h1))))"

text \<open>
  \<^verbatim>\<open>if self.early_stopping.best_state:\<close> holds for a dictionary that is present and not
  empty.
\<close>

definition finalize_training ::
  "('g, 'o) ProductionTrainer \<Rightarrow> store \<Rightarrow> exn + store" where
  "finalize_training tr h =
     (case best_state (early_stopping tr) of
        None \<Rightarrow> Inr h
      | Some sd \<Rightarrow> if sd = [] then Inr h else load_state_dict (model tr) sd h)"

text \<open>\<^verbatim>\<open>train\<close> returns \<^verbatim>\<open>self.model\<close>: the module together with the store it lives in.\<close>

definition train ::
  "('g, 'o) lib \<Rightarrow> ('g, 'o) ProductionTrainer \<Rightarrow> store \<Rightarrow>
     exn + (('g, 'o) ProductionTrainer \<times> store)" where
  "train L tr h =
     (case train_loop L (nat (epochs tr)) 0 (tr, h) of
        Inl e \<Rightarrow> Inl e
      | Inr (tr', h') \<Rightarrow>
          (case finalize_training tr' h' of Inl e \<Rightarrow> Inl e | Inr h'' \<Rightarrow> Inr (tr', h'')))"

subsubsection \<open>The metadata side-car\<close>

record norm_params_t =
  means :: "real list"
  stds :: "real list"

record train_history_summary =
  finalTrainLoss :: "real option"
  finalValLoss :: "real option"
  epochs_run :: nat

record metadata =
  modelType :: string
  version :: string
  normParams :: norm_params_t
  inputSize :: int
  trainHistory :: train_history_summary

text \<open>
  The dictionary \<^verbatim>\<open>_save_metadata\<close> writes; \<^verbatim>\<open>exportedAt\<close> (the clock) and \<^verbatim>\<open>device\<close> are
  left out.  \<open>epochs_run\<close> is the key \<^verbatim>\<open>epochs\<close> of \<^verbatim>\<open>trainHistory\<close>.
\<close>

definition save_metadata ::
  "('g, 'o) ProductionTrainer \<Rightarrow> string \<Rightarrow> norm_params_t \<Rightarrow> int \<Rightarrow> metadata" where
  "save_metadata tr model_name norm_params input_size =
     \<lparr>modelType = model_name,
      version = ''2.0.0'',
      normParams = norm_params,
      inputSize = input_size,
      trainHistory =
        \<lparr>finalTrainLoss = (if train_loss (history tr) \<noteq> [] then Some (last (train_loss (history tr))) else None),
         finalValLoss = (if val_loss (history tr) \<noteq> [] then Some (last (val_loss (history tr))) else None),
         epochs_run = length (train_loss (history tr))\<rparr>\<rparr>"

section \<open>utils/data\_loader.py\<close>

text \<open>
  A two-dimensional array of doubles (\<^verbatim>\<open>dtype=float64\<close>) is the list of its rows; all
  rows of an array have the same length.  Column \<open>j\<close> collects entry \<open>j\<close> of every row.
\<close>

definition ncols :: "real list list \<Rightarrow> nat" where
  "ncols features = (case features of [] \<Rightarrow> 0 | r # rs \<Rightarrow> length r)"

definition rectangular :: "real list list \<Rightarrow> bool" where
  "rectangular features = list_all (\<lambda>r. length r = ncols features) features"

definition column :: "real list list \<Rightarrow> nat \<Rightarrow> real list" where
  "column features j = map (\<lambda>r. r ! j) features"

text \<open>
  \<^verbatim>\<open>mean\<close> and \<^verbatim>\<open>std\<close> of numpy along axis 0, as numpy computes them on doubles: a table
  of several columns is reduced by adding row after row, each addition rounded, and the
  sum is divided by the number of rows; the variance is the mean of the rounded squares
  of the rounded deviations from that mean, and \<^verbatim>\<open>std\<close> is its rounded square root (the
  population deviation).  The tables of the training scripts have 12 to 19 columns.  For
  a table of one column numpy adds the first entry to the sum of the others, which is
  the same double for up to two rows and for three equal entries.
\<close>

definition np_sum :: "real list \<Rightarrow> real" where
  "np_sum xs = foldl (\<lambda>acc x. fl64 (acc + x)) 0 xs"

definition np_mean :: "real list \<Rightarrow> real" where
  "np_mean xs = fl64 (np_sum xs / real (length xs))"

definition np_var :: "real list \<Rightarrow> real" where
  "np_var xs =
     (let m = np_mean xs;
          squares = map (\<lambda>x. fl64 (fl64 (x - m) * fl64 (x - m))) xs
      in fl64 (np_sum squares / real (length xs)))"

definition np_std :: "real list \<Rightarrow> real" where
  "np_std xs = fl64 (sqrt (np_var xs))"

text \<open>
  Elementwise division of arrays: numpy does not raise on a zero divisor, it stores
  an infinity or NaN there.  \<open>None\<close> stands for such an entry.
\<close>

definition np_divide :: "real \<Rightarrow> real \<Rightarrow> real option" where
  "np_divide x s = (if s = 0 then None else Some (fl64 (x / s)))"

definition zscore :: "real list \<Rightarrow> real list \<Rightarrow> real list \<Rightarrow> real option list" where
  "zscore means_v stds_v row =
     map2 (\<lambda>(x, m) s. np_divide (fl64 (x - m)) s) (zip row means_v) stds_v"

definition clamp_std :: "real \<Rightarrow> real" where
  "clamp_std s = (if s > fl64 0.000001 then s else 1.0)"

definition normalize_features :: "real list list \<Rightarrow> real option list list \<times> norm_params_t" where
  "normalize_features features =
     (let means_v = map (\<lambda>j. np_mean (column features j)) [0..<ncols features];
          stds0 = map (\<lambda>j. np_std (column features j)) [0..<ncols features];
          stds_v = map clamp_std stds0;
          normalized = map (zscore means_v stds_v) features
      in (normalized, \<lparr>means = means_v, stds = stds_v\<rparr>))"

section \<open>explain\_model.py\<close>

subsection \<open>Values and results\<close>

text \<open>
  The value \<^verbatim>\<open>json.loads\<close> returns.  An object is the list of the items of the Python
  dictionary in insertion order; the keys of a dictionary are distinct.
\<close>

datatype json =
    JNull
  | JBool bool
  | JNum real
  | JStr string
  | JArr "json list"
  | JObj "(string \<times> json) list"

text \<open>
  An explanation result.  \<open>featureImportance\<close> holds the triples
  \<^verbatim>\<open>(feature, importance, value)\<close>; \<open>positive\<close> and \<open>negative\<close> are the two lists of
  \<^verbatim>\<open>topContributors\<close>, holding the pairs \<^verbatim>\<open>(feature, contribution)\<close>; \<open>isMock\<close> is
  \<open>None\<close> when the key is absent.
\<close>

record explanation =
  featureNames :: "string list"
  shapValues :: "real list"
  expectedValue :: real
  prediction :: real
  featureImportance :: "(string \<times> real \<times> real) list"
  positive :: "(string \<times> real) list"
  negative :: "(string \<times> real) list"
  isMock :: "bool option"

subsection \<open>Python helpers\<close>

text \<open>Running a list of computations from left to right; the first exception wins.\<close>

fun sequence :: "(exn + 'a) list \<Rightarrow> exn + 'a list" where
  "sequence [] = Inr []"
| "sequence (c # cs) =
     (case c of
        Inl e \<Rightarrow> Inl e
      | Inr x \<Rightarrow> (case sequence cs of Inl e \<Rightarrow> Inl e | Inr xs \<Rightarrow> Inr (x # xs)))"

text \<open>\<^verbatim>\<open>d[k] = v\<close> on a dictionary: an existing key keeps its place.\<close>

definition dict_set :: "('k \<times> 'v) list \<Rightarrow> 'k \<Rightarrow> 'v \<Rightarrow> ('k \<times> 'v) list" where
  "dict_set d k v =
     (if k \<in> set (map fst d) then map (\<lambda>(k', v'). if k' = k then (k', v) else (k', v')) d
      else d @ [(k, v)])"

definition dict_get :: "(string \<times> 'v) list \<Rightarrow> string \<Rightarrow> exn + 'v" where
  "dict_get d k = (case map_of d k of None \<Rightarrow> Inl (KeyError k) | Some v \<Rightarrow> Inr v)"

text \<open>\<^verbatim>\<open>sorted(xs, key=f, reverse=True)\<close>: a stable sort by descending key.\<close>

definition sorted_reverse :: "('a \<Rightarrow> real) \<Rightarrow> 'a list \<Rightarrow> 'a list" where
  "sorted_reverse f xs = sort_key (\<lambda>x. - f x) xs"

text \<open>
  \<^verbatim>\<open>sorted(input_data.keys())\<close>: only a dictionary has \<^verbatim>\<open>keys\<close>.
\<close>

definition sorted_keys :: "json \<Rightarrow> exn + string list" where
  "sorted_keys input_data =
     (case input_data of
        JObj items \<Rightarrow> Inr (sort (map fst items))
      | _ \<Rightarrow> Inl (AttributeError ''object has no attribute keys''))"

definition get_item :: "json \<Rightarrow> string \<Rightarrow> exn + json" where
  "get_item input_data k =
     (case input_data of
        JObj items \<Rightarrow> dict_get items k
      | _ \<Rightarrow> Inl (TypeError ''object is not subscriptable''))"

text \<open>
  Python's \<^verbatim>\<open>float(v)\<close>.  The parser of numeric strings is a parameter: it returns
  \<open>None\<close> on a string that is not a number.
\<close>

definition py_float :: "(string \<Rightarrow> real option) \<Rightarrow> json \<Rightarrow> exn + real" where
  "py_float parse v =
     (case v of
        JNum x \<Rightarrow> Inr x
      | JBool b \<Rightarrow> Inr (if b then 1 else 0)
      | JStr t \<Rightarrow>
          (case parse t of
             Some x \<Rightarrow> Inr x
           | None \<Rightarrow> Inl (ValueError ''could not convert string to float''))
      | _ \<Rightarrow> Inl (TypeError ''float() argument must be a string or a real number''))"

subsection \<open>generate\_mock\_explanation\<close>

text \<open>The three loops that fill \<^verbatim>\<open>contributions\<close>, one per model type.\<close>

fun fill_waste ::
  "(string \<Rightarrow> real option) \<Rightarrow> json \<Rightarrow> string list \<Rightarrow> (string \<times> real) list \<Rightarrow>
     exn + (string \<times> real) list" where
  "fill_waste parse input_data [] contributions = Inr contributions"
| "fill_waste parse input_data (name # names) contributions =
     (case get_item input_data name of Inl e \<Rightarrow> Inl e | Inr v \<Rightarrow>
      (case py_float parse v of Inl e \<Rightarrow> Inl e | Inr val \<Rightarrow>
         fill_waste parse input_data names
           (dict_set contributions name (if val > 0 then val * 0.01 else 0.0))))"

fun fill_linear ::
  "(string \<Rightarrow> real option) \<Rightarrow> real \<Rightarrow> json \<Rightarrow> string list \<Rightarrow> (string \<times> real) list \<Rightarrow>
     exn + (string \<times> real) list" where
  "fill_linear parse coeff input_data [] contributions = Inr contributions"
| "fill_linear parse coeff input_data (name # names) contributions =
     (case get_item input_data name of Inl e \<Rightarrow> Inl e | Inr v \<Rightarrow>
      (case py_float parse v of Inl e \<Rightarrow> Inl e | Inr val \<Rightarrow>
         fill_linear parse coeff input_data names (dict_set contributions name (val * coeff))))"

definition input_value :: "(string \<Rightarrow> real option) \<Rightarrow> json \<Rightarrow> string \<Rightarrow> exn + real" where
  "input_value parse input_data name =
     (case get_item input_data name of Inl e \<Rightarrow> Inl e | Inr v \<Rightarrow> py_float parse v)"

text \<open>
  Lines 123 to 138: the baseline and the contributions, by model type.
\<close>

definition mock_heuristic ::
  "(string \<Rightarrow> real option) \<Rightarrow> string \<Rightarrow> json \<Rightarrow> string list \<Rightarrow>
     exn + (real \<times> (string \<times> real) list)" where
  "mock_heuristic parse model_type input_data feature_names =
     (if model_type = ''waste_predictor'' then
        (case fill_waste parse input_data feature_names [] of
           Inl e \<Rightarrow> Inl e
         | Inr contributions \<Rightarrow> Inr (15.0, contributions))
      else if model_type = ''time_estimator'' then
        (case fill_linear parse 0.05 input_data feature_names [] of
           Inl e \<Rightarrow> Inl e
         | Inr contributions \<Rightarrow> Inr (30.0, contributions))
      else
        (case fill_linear parse 0.02 input_data feature_names [] of
           Inl e \<Rightarrow> Inl e
         | Inr contributions \<Rightarrow> Inr (0.5, contributions)))"

definition generate_mock_explanation ::
  "(string \<Rightarrow> real option) \<Rightarrow> string \<Rightarrow> json \<Rightarrow> exn + explanation" where
  "generate_mock_explanation parse model_type input_data =
     (case sorted_keys input_data of Inl e \<Rightarrow> Inl e | Inr feature_names \<Rightarrow>
      (case mock_heuristic parse model_type input_data feature_names of
         Inl e \<Rightarrow> Inl e
       | Inr (baseline, contributions) \<Rightarrow>
          (let sorted_contribs = sorted_reverse (\<lambda>x. \<bar>snd x\<bar>) contributions
           in case sequence (map (dict_get contributions) feature_names) of Inl e \<Rightarrow> Inl e | Inr shap_vals \<Rightarrow>
              (case sequence (map (\<lambda>(name, contrib).
                        case input_value parse input_data name of
                          Inl e \<Rightarrow> Inl e
                        | Inr v \<Rightarrow> Inr (name, \<bar>contrib\<bar>, v)) sorted_contribs) of
                 Inl e \<Rightarrow> Inl e
               | Inr importance \<Rightarrow>
                   Inr \<lparr>featureNames = feature_names,
                        shapValues = shap_vals,
                        expectedValue = baseline,
                        prediction = baseline + sum_list (map snd contributions),
                        featureImportance = importance,
                        positive = take 5 (filter (\<lambda>(name, contrib). contrib > 0) sorted_contribs),
                        negative = take 5 (filter (\<lambda>(name, contrib). contrib < 0) sorted_contribs),
                        isMock = Some True\<rparr>))))"

subsection \<open>The libraries of the primary path\<close>

text \<open>
  The array handed to a prediction function has one or two dimensions.  The value of
  \<^verbatim>\<open>explainer.expected_value\<close> is a float, an array or a list; the value of
  \<^verbatim>\<open>explainer.shap_values\<close> is an array or a list of arrays.
\<close>

datatype ndarray = Vec "real list" | Mat "real list list"

datatype expected_t = EScalar real | EArray "real list" | EList "real list"

datatype shap_out = SArray "real list list" | SList "real list list list"

text \<open>
  What \<^verbatim>\<open>onnxruntime\<close>, \<^verbatim>\<open>shap\<close>, \<^verbatim>\<open>pandas\<close>, \<^verbatim>\<open>os.path\<close> and \<^verbatim>\<open>json\<close> do is a parameter:
  \<open>'s\<close> is an inference session, \<open>'e\<close> an explainer.  \<open>session_run s name X\<close> is
  \<^verbatim>\<open>session.run(None, {name: X})\<close>, the list of the output arrays.
\<close>

record ('s, 'e) explain_env =
  SHAP_AVAILABLE :: bool
  ONNX_AVAILABLE :: bool
  path_exists :: "string \<Rightarrow> bool"
  json_loads :: "string \<Rightarrow> exn + json"
  parse_float :: "string \<Rightarrow> real option"
  InferenceSession :: "string \<Rightarrow> exn + 's"
  get_inputs :: "'s \<Rightarrow> string list"
  session_run :: "'s \<Rightarrow> string \<Rightarrow> real list list \<Rightarrow> exn + real list list list"
  KernelExplainer :: "(ndarray \<Rightarrow> exn + real list list) \<Rightarrow> real list list \<Rightarrow> exn + 'e"
  shap_values :: "'e \<Rightarrow> real list list \<Rightarrow> nat \<Rightarrow> exn + shap_out"
  expected_value :: "'e \<Rightarrow> expected_t"
  read_csv :: "string \<Rightarrow> exn + real list list"

definition list_get :: "'a list \<Rightarrow> nat \<Rightarrow> exn + 'a" where
  "list_get xs i = (if i < length xs then Inr (xs ! i) else Inl (IndexError ''list index out of range''))"

definition load_onnx_model :: "('s, 'e) explain_env \<Rightarrow> string \<Rightarrow> exn + 's option" where
  "load_onnx_model env path =
     (if \<not> ONNX_AVAILABLE env then Inr None
      else case InferenceSession env path of Inl e \<Rightarrow> Inl e | Inr session \<Rightarrow> Inr (Some session))"

definition predict :: "('s, 'e) explain_env \<Rightarrow> 's \<Rightarrow> string \<Rightarrow> ndarray \<Rightarrow> exn + real list list" where
  "predict env session input_name X =
     (let X2 = (case X of Vec v \<Rightarrow> [v] | Mat rows \<Rightarrow> rows)
      in case session_run env session input_name X2 of
           Inl e \<Rightarrow> Inl e
         | Inr outputs \<Rightarrow> list_get outputs 0)"

definition create_prediction_function ::
  "('s, 'e) explain_env \<Rightarrow> 's option \<Rightarrow> exn + (ndarray \<Rightarrow> exn + real list list)" where
  "create_prediction_function env session_opt =
     (case session_opt of
        None \<Rightarrow> Inl (AttributeError ''NoneType object has no attribute get_inputs'')
      | Some session \<Rightarrow>
          (case list_get (get_inputs env session) 0 of
             Inl e \<Rightarrow> Inl e
           | Inr input_name \<Rightarrow> Inr (predict env session input_name)))"

subsection \<open>generate\_shap\_explanation\<close>

text \<open>
  Lines 60 and 61: the feature names and the one-row input array.  The conversion of
  an entry to \<^verbatim>\<open>float32\<close> is modelled by \<open>py_float\<close>: numbers, booleans and numeric
  strings convert, anything else raises.
\<close>

definition shap_input_array ::
  "(string \<Rightarrow> real option) \<Rightarrow> json \<Rightarrow> exn + (string list \<times> real list list)" where
  "shap_input_array parse input_data =
     (case sorted_keys input_data of Inl e \<Rightarrow> Inl e | Inr feature_names \<Rightarrow>
      (case sequence (map (input_value parse input_data) feature_names) of
         Inl e \<Rightarrow> Inl e
       | Inr row \<Rightarrow> Inr (feature_names, [row])))"

text \<open>The body of the \<^verbatim>\<open>try\<close> block of lines 72 to 75.\<close>

definition attribution ::
  "('s, 'e) explain_env \<Rightarrow> (ndarray \<Rightarrow> exn + real list list) \<Rightarrow> real list list \<Rightarrow> real list list \<Rightarrow>
     exn + ('e \<times> shap_out)" where
  "attribution env predict_fn background input_array =
     (case KernelExplainer env predict_fn background of
        Inl e \<Rightarrow> Inl e
      | Inr explainer \<Rightarrow>
          (case shap_values env explainer input_array 100 of
             Inl e \<Rightarrow> Inl e
           | Inr shap_vals \<Rightarrow> Inr (explainer, shap_vals)))"

text \<open>
  Line 80: a float, and an array of one element, convert with \<^verbatim>\<open>float\<close>; a list has no
  \<^verbatim>\<open>__float__\<close> and its first element is taken.
\<close>

definition expected_float :: "expected_t \<Rightarrow> exn + real" where
  "expected_float ev =
     (case ev of
        EScalar x \<Rightarrow> Inr x
      | EArray xs \<Rightarrow>
          (case xs of
             [x] \<Rightarrow> Inr x
           | _ \<Rightarrow> Inl (TypeError ''only length-1 arrays can be converted to Python scalars''))
      | EList xs \<Rightarrow> list_get xs 0)"

definition flatten_shap :: "shap_out \<Rightarrow> exn + real list" where
  "flatten_shap shap_vals =
     (case shap_vals of
        SArray rows \<Rightarrow> Inr (concat rows)
      | SList arrays \<Rightarrow>
          (case list_get arrays 0 of Inl e \<Rightarrow> Inl e | Inr rows \<Rightarrow> Inr (concat rows)))"

text \<open>The loop of lines 90 and 91 over \<^verbatim>\<open>enumerate(feature_names)\<close>.\<close>

fun fill_importance ::
  "real list \<Rightarrow> (nat \<times> string) list \<Rightarrow> (string \<times> real) list \<Rightarrow> exn + (string \<times> real) list" where
  "fill_importance flat [] feature_importance = Inr feature_importance"
| "fill_importance flat ((i, name) # rest) feature_importance =
     (case list_get flat i of
        Inl e \<Rightarrow> Inl e
      | Inr v \<Rightarrow> fill_importance flat rest (dict_set feature_importance name \<bar>v\<bar>))"

text \<open>
  The comprehensions of lines 106 to 113 before the slice: \<^verbatim>\<open>feature_names[i]\<close> is
  evaluated for the indices that pass the test.
\<close>

definition contributors :: "string list \<Rightarrow> real list \<Rightarrow> (real \<Rightarrow> bool) \<Rightarrow> exn + (string \<times> real) list" where
  "contributors feature_names flat keep =
     sequence (map (\<lambda>i. case list_get feature_names i of
                           Inl e \<Rightarrow> Inl e
                         | Inr name \<Rightarrow> Inr (name, flat ! i))
                   (filter (\<lambda>i. keep (flat ! i)) [0..<length flat]))"

definition shap_result ::
  "(string \<Rightarrow> real option) \<Rightarrow> (ndarray \<Rightarrow> exn + real list list) \<Rightarrow> json \<Rightarrow> string list \<Rightarrow>
     real list list \<Rightarrow> real \<Rightarrow> real list \<Rightarrow> exn + explanation" where
  "shap_result parse predict_fn input_data feature_names input_array ev flat =
     (case fill_importance flat (enumerate 0 feature_names) [] of Inl e \<Rightarrow> Inl e | Inr feature_importance \<Rightarrow>
      (let sorted_importance = sorted_reverse snd feature_importance
       in case predict_fn (Mat input_array) of Inl e \<Rightarrow> Inl e | Inr out \<Rightarrow>
          (case list_get (concat out) 0 of Inl e \<Rightarrow> Inl e | Inr pred \<Rightarrow>
          (case sequence (map (\<lambda>(name, imp).
                    case input_value parse input_data name of
                      Inl e \<Rightarrow> Inl e
                    | Inr v \<Rightarrow> Inr (name, imp, v)) sorted_importance) of
             Inl e \<Rightarrow> Inl e
           | Inr importance_entries \<Rightarrow>
          (case contributors feature_names flat (\<lambda>v. v > 0) of Inl e \<Rightarrow> Inl e | Inr pos \<Rightarrow>
          (case contributors feature_names flat (\<lambda>v. v < 0) of Inl e \<Rightarrow> Inl e | Inr neg \<Rightarrow>
             Inr \<lparr>featureNames = feature_names,
                  shapValues = flat,
                  expectedValue = ev,
                  prediction = pred,
                  featureImportance = importance_entries,
                  positive = take 5 pos,
                  negative = take 5 neg,
                  isMock = None\<rparr>))))))"

text \<open>Lines 64 to 66: without background data, ten rows of zeros.\<close>

definition default_background :: "real list list option \<Rightarrow> nat \<Rightarrow> real list list" where
  "default_background background_data n =
     (case background_data of
        None \<Rightarrow> replicate 10 (replicate n 0)
      | Some b \<Rightarrow> b)"

text \<open>
  The function returns the pair \<^verbatim>\<open>(result, error)\<close>, or raises: only the \<^verbatim>\<open>try\<close> block
  turns an exception into the pair \<^verbatim>\<open>(None, str(e))\<close>.
\<close>

definition generate_shap_explanation ::
  "('s, 'e) explain_env \<Rightarrow> 's option \<Rightarrow> json \<Rightarrow> real list list option \<Rightarrow>
     exn + (explanation option \<times> string option)" where
  "generate_shap_explanation env session_opt input_data background_data =
     (case shap_input_array (parse_float env) input_data of Inl e \<Rightarrow> Inl e | Inr (feature_names, input_array) \<Rightarrow>
      (let background = default_background background_data (length feature_names)
       in case create_prediction_function env session_opt of Inl e \<Rightarrow> Inl e | Inr predict_fn \<Rightarrow>
          (case attribution env predict_fn background input_array of
             Inl e \<Rightarrow> Inr (None, Some (str_exn e))
           | Inr (explainer, shap_vals) \<Rightarrow>
               (case expected_float (expected_value env explainer) of Inl e \<Rightarrow> Inl e | Inr ev \<Rightarrow>
               (case flatten_shap shap_vals of Inl e \<Rightarrow> Inl e | Inr flat \<Rightarrow>
               (case shap_result (parse_float env) predict_fn input_data feature_names input_array ev flat of
                  Inl e \<Rightarrow> Inl e
                | Inr result \<Rightarrow> Inr (Some result, None)))))))"

subsection \<open>main\<close>

definition load_background_data :: "('s, 'e) explain_env \<Rightarrow> string \<Rightarrow> real list list option" where
  "load_background_data env path =
     (case read_csv env path of Inl e \<Rightarrow> None | Inr values \<Rightarrow> Some values)"

text \<open>The parsed command line; \<^verbatim>\<open>--background_data\<close> is optional.\<close>

record args =
  arg_model_type :: string
  arg_model_path :: string
  arg_input_data :: string
  arg_background_data :: "string option"

text \<open>Lines 197 to 199: the background data, when a path is given and exists.\<close>

definition background_arg :: "('s, 'e) explain_env \<Rightarrow> args \<Rightarrow> real list list option" where
  "background_arg env a =
     (case arg_background_data a of
        None \<Rightarrow> None
      | Some path \<Rightarrow>
          if path \<noteq> [] \<and> path_exists env path then load_background_data env path else None)"

text \<open>
  The body of the \<^verbatim>\<open>try\<close> block of \<^verbatim>\<open>main\<close> up to the result that is printed:
  \<open>primary_path\<close> is lines 190 to 205, the value of \<^verbatim>\<open>result\<close> before the fallback.
\<close>

definition primary_path ::
  "('s, 'e) explain_env \<Rightarrow> args \<Rightarrow> json \<Rightarrow> exn + explanation option" where
  "primary_path env a input_data =
     (if SHAP_AVAILABLE env \<and> ONNX_AVAILABLE env \<and> path_exists env (arg_model_path a) then
        (case load_onnx_model env (arg_model_path a) of Inl e \<Rightarrow> Inl e | Inr session_opt \<Rightarrow>
         (let background = background_arg env a
          in case generate_shap_explanation env session_opt input_data background of
               Inl e \<Rightarrow> Inl e
             | Inr (result, error) \<Rightarrow>
                 (case error of
                    None \<Rightarrow> Inr result
                  | Some msg \<Rightarrow> if msg \<noteq> [] then Inr None else Inr result)))
      else Inr None)"

definition main_body :: "('s, 'e) explain_env \<Rightarrow> args \<Rightarrow> exn + explanation" where
  "main_body env a =
     (case json_loads env (arg_input_data a) of Inl e \<Rightarrow> Inl e | Inr input_data \<Rightarrow>
      (case primary_path env a input_data of Inl e \<Rightarrow> Inl e | Inr result \<Rightarrow>
       (case result of
          None \<Rightarrow> generate_mock_explanation (parse_float env) (arg_model_type a) input_data
        | Some r \<Rightarrow> Inr r)))"

text \<open>
  What the process prints on standard output, and its exit status: the result with the
  keys \<^verbatim>\<open>modelType\<close> and \<^verbatim>\<open>modelPath\<close> added, or an error object.
\<close>

datatype stdout_json = ResultJson explanation string string | ErrorJson string

fun json_keys :: "stdout_json \<Rightarrow> string list" where
  "json_keys (ResultJson r mt mp) =
     [''featureNames'', ''shapValues'', ''expectedValue'', ''prediction'', ''featureImportance'',
      ''topContributors''] @ (case isMock r of None \<Rightarrow> [] | Some b \<Rightarrow> [''isMock'']) @
     [''modelType'', ''modelPath'']"
| "json_keys (ErrorJson msg) = [''error'']"

definition main :: "('s, 'e) explain_env \<Rightarrow> args \<Rightarrow> stdout_json \<times> int" where
  "main env a =
     (case main_body env a of
        Inr result \<Rightarrow> (ResultJson result (arg_model_type a) (arg_model_path a), 0)
      | Inl e \<Rightarrow>
          (case e of
             JSONDecodeError msg \<Rightarrow> (ErrorJson (''Invalid JSON input: '' @ msg), 1)
           | _ \<Rightarrow> (ErrorJson (''Explanation failed: '' @ str_exn e), 1)))"

section \<open>Predicates and test fixtures used by the properties\<close>

subsection \<open>Early stopping and the training loop\<close>

text \<open>
  Every score passes the test of \<^verbatim>\<open>_is_improved\<close> against its predecessor: it is less than
  the double \<^verbatim>\<open>best_score - min_delta\<close> computed from the predecessor and \<open>d\<close>.
\<close>

definition undercuts_by :: "real \<Rightarrow> real list \<Rightarrow> bool" where
  "undercuts_by d xs = successively (\<lambda>a b. b < fl64 (a - d)) xs"

text \<open>
  Sixteen validation scores, all doubles, that fall by \<^verbatim>\<open>2^-20\<close> (less than one
  millionth) per epoch: strictly decreasing, and never by more than the \<^verbatim>\<open>min_delta\<close> of
  0.0001.
\<close>

definition slow_descent :: "real list" where
  "slow_descent =
     [1, 1048575 / 1048576, 1048574 / 1048576, 1048573 / 1048576, 1048572 / 1048576,
      1048571 / 1048576, 1048570 / 1048576, 1048569 / 1048576, 1048568 / 1048576,
      1048567 / 1048576, 1048566 / 1048576, 1048565 / 1048576, 1048564 / 1048576,
      1048563 / 1048576, 1048562 / 1048576, 1048561 / 1048576]"

text \<open>
  Two scores whose exact difference exceeds 0.0001 while the double \<^verbatim>\<open>0.05 - 0.0001\<close> is the
  double \<^verbatim>\<open>0.0499\<close> itself.
\<close>

definition rounding_boundary :: "real list" where
  "rounding_boundary = [fl64 0.05, fl64 0.0499]"

text \<open>What holds of the trainer between two epochs.\<close>

definition loop_inv :: "('g, 'o) ProductionTrainer \<Rightarrow> bool" where
  "loop_inv tr =
     (length (train_loss (history tr)) = length (val_loss (history tr)) \<and>
      \<not> should_stop (early_stopping tr) \<and>
      mode (early_stopping tr) = ''min'' \<and>
      (case best_score (early_stopping tr) of
         None \<Rightarrow> val_loss (history tr) = []
       | Some b \<Rightarrow> b \<in> set (val_loss (history tr))))"

text \<open>
  The last recorded epoch did not improve: the best score is the validation loss of an
  earlier epoch, and the last validation loss is not below the double
  \<^verbatim>\<open>best_score - min_delta\<close>.
\<close>

definition halted_on_stale_epoch :: "('g, 'o) ProductionTrainer \<Rightarrow> bool" where
  "halted_on_stale_epoch tr =
     (case best_score (early_stopping tr) of
        None \<Rightarrow> False
      | Some b \<Rightarrow>
          val_loss (history tr) \<noteq> [] \<and>
          b \<in> set (butlast (val_loss (history tr))) \<and>
          fl64 (b - min_delta (early_stopping tr)) \<le> last (val_loss (history tr)))"

definition loop_post :: "('g, 'o) ProductionTrainer \<Rightarrow> bool" where
  "loop_post tr =
     (length (train_loss (history tr)) = length (val_loss (history tr)) \<and>
      (if should_stop (early_stopping tr) then halted_on_stale_epoch tr else True))"

text \<open>The recorded checkpoint is the dictionary of the live parameter tensors.\<close>

definition checkpoint_aliases_model :: "('g, 'o) ProductionTrainer \<Rightarrow> bool" where
  "checkpoint_aliases_model tr =
     (case best_state (early_stopping tr) of
        None \<Rightarrow> True
      | Some sd \<Rightarrow> sd = named_parameters (model tr))"

text \<open>
  A synthetic run with a late regression: a model of one weight \<^verbatim>\<open>w\<close>, starting at 0,
  that every training epoch moves up by one, in place, and whose validation loss is
  \<open>\<bar>w - 2\<bar>\<close>.  The validation losses of the epochs are 1, 0, 1, 2 and so on: the best
  epoch is the second.
\<close>

definition late_regression_lib :: "(unit, nat) lib" where
  "late_regression_lib =
     \<lparr>default_rng = (\<lambda>s. ()),
      permutation = (\<lambda>g n. ([0..<n], g)),
      make_optimizer = (\<lambda>m lr. 0),
      get_lr = (\<lambda>opt. 0.001),
      scheduler_step = (\<lambda>opt v. opt),
      train_epoch = (\<lambda>opt h. Inr (1, Suc opt, h(0 := [real (Suc opt)]))),
      validate_epoch = (\<lambda>opt h. Inr (case h 0 of [] \<Rightarrow> 0 | w # ws \<Rightarrow> \<bar>w - 2\<bar>))\<rparr>"

definition one_weight :: Module where
  "one_weight = \<lparr>named_parameters = [(''w'', 0)]\<rparr>"

definition zero_store :: store where
  "zero_store = (\<lambda>a. [0])"

definition returned_parameters ::
  "exn + (('g, 'o) ProductionTrainer \<times> store) \<Rightarrow> exn + (string \<times> tensor) list" where
  "returned_parameters r =
     (case r of Inl e \<Rightarrow> Inl e | Inr (tr, h) \<Rightarrow> Inr (parameter_values (model tr) h))"

definition recorded_best ::
  "exn + (('g, 'o) ProductionTrainer \<times> store) \<Rightarrow> exn + (real option \<times> real list)" where
  "recorded_best r =
     (case r of
        Inl e \<Rightarrow> Inl e
      | Inr (tr, h) \<Rightarrow> Inr (best_score (early_stopping tr), val_loss (history tr)))"

text \<open>
  The validation loss of the model that \<^verbatim>\<open>train\<close> returned, which \<^verbatim>\<open>export_onnx\<close>
  serializes, and the \<^verbatim>\<open>trainHistory\<close> that \<^verbatim>\<open>_save_metadata\<close> writes beside it.
\<close>

definition returned_val_loss ::
  "('g, 'o) lib \<Rightarrow> exn + (('g, 'o) ProductionTrainer \<times> store) \<Rightarrow> exn + real" where
  "returned_val_loss L r =
     (case r of Inl e \<Rightarrow> Inl e | Inr (tr, h) \<Rightarrow> validate_epoch L (optimizer tr) h)"

definition side_car ::
  "exn + (('g, 'o) ProductionTrainer \<times> store) \<Rightarrow> exn + train_history_summary" where
  "side_car r =
     (case r of
        Inl e \<Rightarrow> Inl e
      | Inr (tr, h) \<Rightarrow>
          Inr (trainHistory (save_metadata tr ''waste_predictor'' \<lparr>means = [0], stds = [1]\<rparr> 1)))"

text \<open>
  The pairs of training and validation loss of the epochs that the loop executes, in
  order: the loop of \<^verbatim>\<open>train\<close> with the losses as its only result.
\<close>

fun epoch_losses ::
  "('g, 'o) lib \<Rightarrow> nat \<Rightarrow> nat \<Rightarrow> ('g, 'o) ProductionTrainer \<times> store \<Rightarrow> (real \<times> real) list" where
  "epoch_losses L 0 epoch (tr, h) = []"
| "epoch_losses L (Suc k) epoch (tr, h) =
     (case train_epoch L (optimizer tr) h of
        Inl e \<Rightarrow> []
      | Inr (train_loss_v, opt1, h1) \<Rightarrow>
          (case validate_epoch L opt1 h1 of
             Inl e \<Rightarrow> []
           | Inr val_loss_v \<Rightarrow>
               (train_loss_v, val_loss_v) #
               (let (stop, tr2) =
                      update_training_state L (tr\<lparr>optimizer := opt1\<rparr>) epoch train_loss_v val_loss_v
                in if stop then [] else epoch_losses L k (Suc epoch) (tr2, h1))))"

subsection \<open>The dataset split\<close>

text \<open>
  A generator whose state counts the permutations drawn, and whose \<open>k\<close>-th permutation of
  \<open>n\<close> indices is the rotation by \<open>k\<close>; the trainer libraries are those of the run above.
\<close>

definition rotating_lib :: "(nat, nat) lib" where
  "rotating_lib =
     \<lparr>default_rng = (\<lambda>s. 0),
      permutation = (\<lambda>g n. (rotate (Suc g) [0..<n], Suc g)),
      make_optimizer = (\<lambda>m lr. 0),
      get_lr = (\<lambda>opt. 0.001),
      scheduler_step = (\<lambda>opt v. opt),
      train_epoch = (\<lambda>opt h. Inr (1, Suc opt, h(0 := [real (Suc opt)]))),
      validate_epoch = (\<lambda>opt h. Inr (case h 0 of [] \<Rightarrow> 0 | w # ws \<Rightarrow> \<bar>w - 2\<bar>))\<rparr>"

text \<open>The index partition of the second of two \<^verbatim>\<open>prepare_data\<close> calls on one trainer.\<close>

definition second_index_partition ::
  "('g, 'o) lib \<Rightarrow> ('g, 'o) ProductionTrainer \<Rightarrow> nat \<Rightarrow> real \<Rightarrow> exn + (nat list \<times> nat list)" where
  "second_index_partition L tr n val_split =
     (case prepare_data L tr [0..<n] [0..<n] val_split of
        Inl e \<Rightarrow> Inl e
      | Inr (loaders, tr') \<Rightarrow> index_partition L tr' n val_split)"

subsection \<open>The normalization\<close>



subsection \<open>The explanation engine\<close>

text \<open>A record of named numbers, and the row of its values in the order of the sorted keys.\<close>

definition numeric_record :: "(string \<times> real) list \<Rightarrow> json" where
  "numeric_record kvs = JObj (map (\<lambda>(k, x). (k, JNum x)) kvs)"

definition raw_row :: "(string \<times> real) list \<Rightarrow> real list" where
  "raw_row kvs = map (\<lambda>k. case map_of kvs k of None \<Rightarrow> 0 | Some x \<Rightarrow> x) (sort (map fst kvs))"

text \<open>
  A parser for three texts, and the libraries around a compiled linear model
  \<open>f(x) = (x\<^sub>1 + \<dots> + x\<^sub>n) / 10\<close>: the session scores each row, and the explainer returns
  the Shapley values of \<open>f\<close> against a background of zeros, \<open>x\<^sub>i / 10\<close> for feature \<open>i\<close>,
  with the expected value \<open>f(0) = 0\<close>.
\<close>

definition toy_json_loads :: "string \<Rightarrow> exn + json" where
  \<open>toy_json_loads t =
     (if t = ''{"a": 1, "b": 5, "c": 3}'' then
        Inr (JObj [(''a'', JNum 1), (''b'', JNum 5), (''c'', JNum 3)])
      else if t = ''{"a": 10}'' then Inr (JObj [(''a'', JNum 10)])
      else if t = ''{"a": 10.0, "b": -5.0}'' then
        Inr (JObj [(''a'', JNum 10.0), (''b'', JNum (- 5.0))])
      else Inl (JSONDecodeError ''Expecting value: line 1 column 1 (char 0)''))\<close>

definition linear_env :: "(unit, unit) explain_env" where
  "linear_env =
     \<lparr>SHAP_AVAILABLE = True,
      ONNX_AVAILABLE = True,
      path_exists = (\<lambda>p. p = ''model.onnx''),
      json_loads = toy_json_loads,
      parse_float = (\<lambda>t. None),
      InferenceSession = (\<lambda>p. Inr ()),
      get_inputs = (\<lambda>s. [''input'']),
      session_run = (\<lambda>s n X. Inr [map (\<lambda>row. [sum_list row / 10]) X]),
      KernelExplainer = (\<lambda>f bg. Inr ()),
      shap_values = (\<lambda>e X n. Inr (SArray (map (map (\<lambda>x. x / 10)) X))),
      expected_value = (\<lambda>e. EScalar 0),
      read_csv = (\<lambda>p. Inl (ValueError ''No columns to parse from file''))\<rparr>"

text \<open>The same libraries with a model file that the runtime rejects.\<close>

definition corrupt_model_env :: "(unit, unit) explain_env" where
  "corrupt_model_env =
     linear_env\<lparr>InferenceSession := (\<lambda>p. Inl (RuntimeError ''INVALID_PROTOBUF''))\<rparr>"

text \<open>The same libraries with an explainer whose sampling fails.\<close>

definition failing_explainer_env :: "(unit, unit) explain_env" where
  "failing_explainer_env =
     linear_env\<lparr>shap_values := (\<lambda>e X n. Inl (ValueError ''Singular matrix''))\<rparr>"

definition cli :: "string \<Rightarrow> string \<Rightarrow> args" where
  "cli model_type_v input_text =
     \<lparr>arg_model_type = model_type_v, arg_model_path = ''model.onnx'',
      arg_input_data = input_text, arg_background_data = None\<rparr>"

section \<open>Properties of EarlyStopping\<close>

lemma stopped_trace_improving:
  assumes "successively (\<lambda>a b. b < fl64 (a - min_delta es)) xs"
      and "mode es = ''min''" and "\<not> should_stop es"
      and "case best_score es of
             None \<Rightarrow> True
           | Some b \<Rightarrow> (case xs of [] \<Rightarrow> True | x # _ \<Rightarrow> x < fl64 (b - min_delta es))"
  shows "True \<notin> set (stopped_trace es m xs)"
  using assms
proof (induction xs arbitrary: es)
  case Nil
  then show ?case by simp
next
  case (Cons x xs)
  define es' where "es' = snd (EarlyStopping_call es x m)"
  have a: "\<not> should_stop es'" "mode es' = ''min''" "min_delta es' = min_delta es"
      "best_score es' = Some x"
    using Cons.prems(2,3,4) unfolding es'_def
    by (auto simp: EarlyStopping_call_def is_improved_def Let_def split: option.splits)
  have b: "successively (\<lambda>a b. b < fl64 (a - min_delta es')) xs"
    using Cons.prems(1) a(3) by (cases xs) auto
  have c: "case best_score es' of
             None \<Rightarrow> True
           | Some b \<Rightarrow> (case xs of [] \<Rightarrow> True | y # _ \<Rightarrow> y < fl64 (b - min_delta es'))"
    using Cons.prems(1) a by (cases xs) auto
  have "True \<notin> set (stopped_trace es' m xs)"
    by (rule Cons.IH[OF b a(2) a(1) c])
  then show ?case using a(1) by (simp add: Let_def es'_def)
qed

text \<open>
  Claim C4, as stated: on a strictly decreasing sequence of validation scores the
  stopped flag is never true.  It fails for the trainer's configuration (patience 15,
  \<^verbatim>\<open>min_delta\<close> 0.0001, mode \<^verbatim>\<open>min\<close>): on sixteen scores that fall by \<^verbatim>\<open>2^-20\<close> each, no
  call after the first counts as an improvement and the sixteenth call sets the flag.
\<close>

theorem early_stopping_slow_descent_stops:
  "sorted_wrt (>) slow_descent \<and>
   stopped_trace (EarlyStopping_init 15 (fl64 0.0001) ''min'') one_weight slow_descent =
     replicate 15 False @ [True]"
  by code_simp

text \<open>
  A decrease by more than \<^verbatim>\<open>min_delta\<close> in exact arithmetic is not enough either: the
  double 0.0499 is below the double 0.05 by more than 0.0001, but \<^verbatim>\<open>0.05 - 0.0001\<close> rounds
  to 0.0499, the test of \<^verbatim>\<open>_is_improved\<close> fails and a run of patience 1 stops at the second
  call.
\<close>

lemma early_stopping_rounding_boundary:
  "fl64 0.0499 < fl64 0.05 - 0.0001 \<and>
   fl64 0.0499 < fl64 0.05 - fl64 0.0001 \<and>
   fl64 (fl64 0.05 - fl64 0.0001) = fl64 0.0499 \<and>
   stopped_trace (EarlyStopping_init 1 (fl64 0.0001) ''min'') one_weight rounding_boundary =
     [False, True]"
  by code_simp

text \<open>
  Claim C4, amended: when every validation score passes the code's own test against its
  predecessor, that is, it is less than the double \<^verbatim>\<open>best_score - min_delta\<close> computed from
  the predecessor (lower is better, mode \<^verbatim>\<open>min\<close>), the stopped flag is never true at any
  point of the sequence, whatever the patience.
\<close>

theorem early_stopping_never_stops_while_improving:
  assumes "undercuts_by d xs"
  shows "True \<notin> set (stopped_trace (EarlyStopping_init p d ''min'') m xs)"
  by (rule stopped_trace_improving)
     (use assms in \<open>simp_all add: EarlyStopping_init_def undercuts_by_def\<close>)

theorem early_stopping_never_stops_while_improving_witness:
  "undercuts_by (fl64 0.0001) [1, 0.5, 0.25] \<and>
   True \<notin> set (stopped_trace (EarlyStopping_init 15 (fl64 0.0001) ''min'') one_weight
                  [1, 0.5, 0.25])"
proof -
  have h: "undercuts_by (fl64 0.0001) [1, 0.5, 0.25]"
    by code_simp
  show ?thesis
    using h early_stopping_never_stops_while_improving [OF h, of 15 one_weight] by simp
qed

section \<open>Properties of the dataset split\<close>

lemma take_rows_identity:
  assumes "list_all (\<lambda>i. i < n) p"
  shows "take_rows [0..<n] p = Inr p"
proof -
  from assms have "map (\<lambda>i. [0..<n] ! i) p = p"
    by (induction p) auto
  with assms show ?thesis by (simp add: take_rows_def)
qed

lemma index_partition_cut:
  assumes "permutation L (rng tr) n = (p, g')" and "list_all (\<lambda>i. i < n) p"
      and "0 < py_int (fl64 (real (length p) * fl64 (1 - f)))" and "p \<noteq> []"
      and "0 < batch_size tr"
  shows "index_partition L tr n f =
         Inr (take (nat (py_int (fl64 (real (length p) * fl64 (1 - f))))) p,
              drop (nat (py_int (fl64 (real (length p) * fl64 (1 - f))))) p)"
proof -
  define k where "k = py_int (fl64 (real (length p) * fl64 (1 - f)))"
  have k: "0 < k" using assms(3) by (simp add: k_def)
  have ne: "zip (take (nat k) p) (take (nat k) p) \<noteq> []"
    using k assms(4) by (cases p) (auto simp: take_Cons')
  show ?thesis
    using assms(1,5) k ne
    by (simp add: index_partition_def prepare_data_def take_rows_identity[OF assms(2)] Let_def
        slice_to_def slice_from_def TensorDataset_def DataLoader_init_def k_def[symmetric])
qed

text \<open>
  Claim C7, as stated: any two invocations of the splitter with the same dataset size,
  seed and validation fraction produce the same index partitions.  It fails for two
  calls of \<^verbatim>\<open>prepare_data\<close> on one trainer: the second call draws its permutation from the
  generator that the first call advanced.  With the rotating generator, four rows and
  the fraction 0.5, the first call gives the partition 1, 2 and 3, 0, the second call
  gives 2, 3 and 0, 1.
\<close>

theorem second_split_differs:
  "index_partition rotating_lib
     (ProductionTrainer_init rotating_lib one_weight 0.001 32 100 15 42 True) 4 0.5 =
     Inr ([1, 2], [3, 0]) \<and>
   second_index_partition rotating_lib
     (ProductionTrainer_init rotating_lib one_weight 0.001 32 100 15 42 True) 4 0.5 =
     Inr ([2, 3], [0, 1])"
  by code_simp

text \<open>
  The cut is computed on doubles and truncated: for ten rows and the fraction 0.8 the
  double \<^verbatim>\<open>10 * (1 - 0.8)\<close> is below 2 and the cut is at 1.  An empty training part makes
  the constructor of the shuffling \<^verbatim>\<open>DataLoader\<close> raise.
\<close>

lemma cut_truncates_rounded_product:
  "py_int (fl64 (real 10 * fl64 (1 - fl64 0.8))) = 1"
  by code_simp

lemma empty_training_part_raises:
  "index_partition rotating_lib
     (ProductionTrainer_init rotating_lib one_weight 0.001 32 100 15 42 True) 4 (fl64 0.8) =
     Inl (ValueError ''num_samples should be a positive integer value, but got num_samples=0'')"
  by code_simp

text \<open>
  Claim C7, amended: two invocations of the splitter, each the first \<^verbatim>\<open>prepare_data\<close> call
  on a trainer freshly constructed with the same seed \<open>s\<close> and a positive batch size, with
  the same dataset size \<open>n\<close> and validation fraction \<open>f\<close>, produce the same result, the
  same index partitions or the same exception, whatever the other constructor arguments;
  when the seeded permutation is \<open>p\<close> and the cut \<^verbatim>\<open>int(n * (1 - f))\<close>, computed on doubles,
  is positive, the partition is \<open>p\<close> cut there.
\<close>

theorem split_reproducible:
  assumes "0 < bs1" and "0 < bs2"
  shows "index_partition L (ProductionTrainer_init L m1 lr1 bs1 ep1 pat1 s vb1) n f =
         index_partition L (ProductionTrainer_init L m2 lr2 bs2 ep2 pat2 s vb2) n f \<and>
         (\<forall>p g'. permutation L (default_rng L s) n = (p, g') \<and> list_all (\<lambda>i. i < n) p \<and>
                 p \<noteq> [] \<and> 0 < py_int (fl64 (real (length p) * fl64 (1 - f))) \<longrightarrow>
            index_partition L (ProductionTrainer_init L m1 lr1 bs1 ep1 pat1 s vb1) n f =
              Inr (take (nat (py_int (fl64 (real (length p) * fl64 (1 - f))))) p,
                   drop (nat (py_int (fl64 (real (length p) * fl64 (1 - f))))) p))"
proof (intro conjI allI impI)
  show "index_partition L (ProductionTrainer_init L m1 lr1 bs1 ep1 pat1 s vb1) n f =
        index_partition L (ProductionTrainer_init L m2 lr2 bs2 ep2 pat2 s vb2) n f"
    using assms
    by (simp add: index_partition_def prepare_data_def ProductionTrainer_init_def Let_def
        DataLoader_init_def split: prod.split sum.split)
next
  fix p g'
  assume h: "permutation L (default_rng L s) n = (p, g') \<and> list_all (\<lambda>i. i < n) p \<and>
             p \<noteq> [] \<and> 0 < py_int (fl64 (real (length p) * fl64 (1 - f)))"
  have r: "rng (ProductionTrainer_init L m1 lr1 bs1 ep1 pat1 s vb1) = default_rng L s"
    and b: "batch_size (ProductionTrainer_init L m1 lr1 bs1 ep1 pat1 s vb1) = bs1"
    by (simp_all add: ProductionTrainer_init_def)
  show "index_partition L (ProductionTrainer_init L m1 lr1 bs1 ep1 pat1 s vb1) n f =
          Inr (take (nat (py_int (fl64 (real (length p) * fl64 (1 - f))))) p,
               drop (nat (py_int (fl64 (real (length p) * fl64 (1 - f))))) p)"
    using h assms(1) by (intro index_partition_cut) (simp_all add: r b)
qed

theorem split_reproducible_witness:
  "(0 :: int) < 32 \<and> (0 :: int) < 64 \<and>
   permutation rotating_lib (default_rng rotating_lib 42) 4 = ([1, 2, 3, 0], 1) \<and>
   py_int (fl64 (real (length [1, 2, 3, 0 :: nat]) * fl64 (1 - 0.5))) = 2 \<and>
   index_partition rotating_lib
     (ProductionTrainer_init rotating_lib one_weight 0.001 32 100 15 42 True) 4 0.5 =
   index_partition rotating_lib
     (ProductionTrainer_init rotating_lib one_weight 0.01 64 50 5 42 False) 4 0.5 \<and>
   index_partition rotating_lib
     (ProductionTrainer_init rotating_lib one_weight 0.001 32 100 15 42 True) 4 0.5 =
     Inr ([1, 2], [3, 0])"
proof -
  have h1: "(0 :: int) < 32" and h2: "(0 :: int) < 64" by simp_all
  have p: "permutation rotating_lib (default_rng rotating_lib 42) 4 = ([1, 2, 3, 0], 1)"
    by code_simp
  have k: "py_int (fl64 (real (length [1, 2, 3, 0 :: nat]) * fl64 (1 - 0.5))) = 2"
    by code_simp
  have v: "list_all (\<lambda>i. i < 4) [1, 2, 3, 0 :: nat]" by simp
  note t = split_reproducible [OF h1 h2, where L = rotating_lib and ?m1.0 = one_weight
      and ?lr1.0 = "0.001" and ?ep1.0 = 100 and ?pat1.0 = 15 and s = 42 and ?vb1.0 = True
      and ?m2.0 = one_weight and ?lr2.0 = "0.01" and ?ep2.0 = 50 and ?pat2.0 = 5
      and ?vb2.0 = False and n = 4 and f = "0.5"]
  from t have e: "index_partition rotating_lib
     (ProductionTrainer_init rotating_lib one_weight 0.001 32 100 15 42 True) 4 0.5 =
   index_partition rotating_lib
     (ProductionTrainer_init rotating_lib one_weight 0.01 64 50 5 42 False) 4 0.5"
    by (rule conjunct1)
  from t[THEN conjunct2, rule_format, of "[1, 2, 3, 0]" 1] p k v
  have c: "index_partition rotating_lib
     (ProductionTrainer_init rotating_lib one_weight 0.001 32 100 15 42 True) 4 0.5 =
     Inr ([1, 2], [3, 0])"
    by simp
  from h1 h2 p k e c show ?thesis by blast
qed

section \<open>Properties of the training loop\<close>

lemma update_training_state_continue:
  assumes "loop_inv tr" and "update_training_state L tr epoch trl vll = (False, tr')"
  shows "loop_inv tr' \<and>
         length (val_loss (history tr')) = Suc (length (val_loss (history tr)))"
  using assms
  by (auto simp: loop_inv_def update_training_state_def EarlyStopping_call_def Let_def
        is_improved_def
      split: if_splits option.splits prod.splits)

lemma update_training_state_stop:
  assumes "loop_inv tr" and "update_training_state L tr epoch trl vll = (True, tr')"
  shows "loop_post tr' \<and>
         length (val_loss (history tr')) = Suc (length (val_loss (history tr)))"
  using assms
  by (auto simp: loop_inv_def loop_post_def halted_on_stale_epoch_def update_training_state_def
        EarlyStopping_call_def Let_def is_improved_def
      split: if_splits option.splits prod.splits)

lemma loop_inv_optimizer: "loop_inv (tr\<lparr>optimizer := x\<rparr>) = loop_inv tr"
  by (simp add: loop_inv_def split: option.split)

lemma train_loop_post:
  assumes "loop_inv tr" and "train_loop L k epoch (tr, h) = Inr (tr', h')"
  shows "loop_post tr' \<and> length (val_loss (history tr')) \<le> length (val_loss (history tr)) + k"
  using assms
proof (induction k arbitrary: epoch tr h)
  case 0
  then show ?case by (auto simp: loop_inv_def loop_post_def)
next
  case (Suc k)
  from Suc.prems(2) obtain trl opt1 h1 vll where
    te: "train_epoch L (optimizer tr) h = Inr (trl, opt1, h1)" and
    ve: "validate_epoch L opt1 h1 = Inr vll"
    by (auto split: sum.splits)
  obtain stop tr2 where
    u: "update_training_state L (tr\<lparr>optimizer := opt1\<rparr>) epoch trl vll = (stop, tr2)"
    by (cases "update_training_state L (tr\<lparr>optimizer := opt1\<rparr>) epoch trl vll")
  have inv1: "loop_inv (tr\<lparr>optimizer := opt1\<rparr>)"
    using Suc.prems(1) by (simp add: loop_inv_optimizer)
  have hl: "val_loss (history (tr\<lparr>optimizer := opt1\<rparr>)) = val_loss (history tr)"
    by simp
  show ?case
  proof (cases stop)
    case True
    with Suc.prems(2) te ve u have "tr' = tr2" by simp
    with update_training_state_stop[OF inv1] u True hl show ?thesis by simp
  next
    case False
    with Suc.prems(2) te ve u have r: "train_loop L k (Suc epoch) (tr2, h1) = Inr (tr', h')"
      by simp
    from update_training_state_continue[OF inv1] u False
    have i2: "loop_inv tr2"
      and l2: "length (val_loss (history tr2)) = Suc (length (val_loss (history tr)))"
      by simp_all
    from Suc.IH[OF i2 r] l2 show ?thesis by simp
  qed
qed

lemma loop_inv_init: "loop_inv (ProductionTrainer_init L mdl lr bs ep pat sd vb)"
  by (simp add: loop_inv_def ProductionTrainer_init_def EarlyStopping_init_def)

subsection \<open>The checkpoint shares the storage of the live parameters\<close>

lemma copy_entries_alias:
  assumes "list_all (\<lambda>(name, a). map_of (named_parameters m) name = Some a) sd"
  shows "copy_entries m sd h = h"
  using assms by (induction sd arbitrary: h) auto

lemma own_state_dict_alias:
  assumes "distinct (map fst (named_parameters m))"
  shows "list_all (\<lambda>(name, a). map_of (named_parameters m) name = Some a) (named_parameters m)"
  using assms by (auto simp: list_all_iff)

lemma update_training_state_alias:
  assumes "checkpoint_aliases_model tr"
      and "update_training_state L tr epoch trl vll = (stop, tr')"
  shows "checkpoint_aliases_model tr' \<and> model tr' = model tr"
  using assms
  by (auto simp: checkpoint_aliases_model_def update_training_state_def EarlyStopping_call_def
        Let_def state_dict_def dict_copy_def
      split: if_splits option.splits prod.splits)

lemma train_loop_alias:
  assumes "checkpoint_aliases_model tr" and "train_loop L k epoch (tr, h) = Inr (tr', h')"
  shows "checkpoint_aliases_model tr' \<and> model tr' = model tr"
  using assms
proof (induction k arbitrary: epoch tr h)
  case 0
  then show ?case by simp
next
  case (Suc k)
  from Suc.prems(2) obtain trl opt1 h1 vll where
    te: "train_epoch L (optimizer tr) h = Inr (trl, opt1, h1)" and
    ve: "validate_epoch L opt1 h1 = Inr vll"
    by (auto split: sum.splits)
  obtain stop tr2 where
    u: "update_training_state L (tr\<lparr>optimizer := opt1\<rparr>) epoch trl vll = (stop, tr2)"
    by (cases "update_training_state L (tr\<lparr>optimizer := opt1\<rparr>) epoch trl vll")
  have a1: "checkpoint_aliases_model (tr\<lparr>optimizer := opt1\<rparr>)"
    using Suc.prems(1) by (auto simp: checkpoint_aliases_model_def split: option.splits)
  from update_training_state_alias[OF a1 u]
  have a2: "checkpoint_aliases_model tr2" and m2: "model tr2 = model tr" by simp_all
  show ?case
  proof (cases stop)
    case True
    with Suc.prems(2) te ve u have "tr' = tr2" by simp
    with a2 m2 show ?thesis by simp
  next
    case False
    with Suc.prems(2) te ve u have r: "train_loop L k (Suc epoch) (tr2, h1) = Inr (tr', h')"
      by simp
    from Suc.IH[OF a2 r] m2 show ?thesis by simp
  qed
qed

lemma finalize_training_alias:
  assumes "checkpoint_aliases_model tr" and "distinct (map fst (named_parameters (model tr)))"
  shows "finalize_training tr h = Inr h"
  using assms copy_entries_alias[OF own_state_dict_alias, of "model tr" h]
  by (auto simp: finalize_training_def checkpoint_aliases_model_def load_state_dict_def
      split: option.splits)

text \<open>
  Restoring the checkpoint changes nothing: \<^verbatim>\<open>train\<close> returns the store the last executed
  epoch left behind.
\<close>

lemma train_returns_last_epoch_parameters:
  assumes "distinct (map fst (named_parameters mdl))"
  shows "train L (ProductionTrainer_init L mdl lr bs ep pat sd vb) h =
         train_loop L (nat ep) 0 (ProductionTrainer_init L mdl lr bs ep pat sd vb, h)"
proof (cases "train_loop L (nat ep) 0 (ProductionTrainer_init L mdl lr bs ep pat sd vb, h)")
  case (Inl e)
  then show ?thesis by (simp add: train_def ProductionTrainer_init_def)
next
  case (Inr r)
  obtain tr' h' where r: "r = (tr', h')" by (cases r)
  have a0: "checkpoint_aliases_model (ProductionTrainer_init L mdl lr bs ep pat sd vb)"
    by (simp add: checkpoint_aliases_model_def ProductionTrainer_init_def EarlyStopping_init_def)
  from train_loop_alias[OF a0 Inr[unfolded r]]
  have "checkpoint_aliases_model tr'" and "model tr' = mdl"
    by (simp_all add: ProductionTrainer_init_def)
  with assms have "finalize_training tr' h' = Inr h'"
    by (simp add: finalize_training_alias)
  with Inr r show ?thesis by (simp add: train_def ProductionTrainer_init_def)
qed

text \<open>
  Claim C1: the model \<^verbatim>\<open>train\<close> returns has the parameters of the checkpoint recorded at
  the epoch with the best validation score, not those of the final executed epoch.  The
  code does not do this.  On the run with a late regression, with three epochs, the
  validation losses are 1, 0, 1 and the best score 0 is recorded at the second epoch,
  where the weight is 2 (the run with two epochs returns it); the model returned after
  three epochs has the weight 3 of the final epoch.  The checkpoint is a shallow copy of
  the state dictionary, so it holds the live tensors and follows the later updates.
\<close>

theorem train_returns_final_epoch_not_best:
  "recorded_best (train late_regression_lib
      (ProductionTrainer_init late_regression_lib one_weight 0.001 32 3 15 42 False) zero_store)
     = Inr (Some 0, [1, 0, 1]) \<and>
   returned_parameters (train late_regression_lib
      (ProductionTrainer_init late_regression_lib one_weight 0.001 32 2 15 42 False) zero_store)
     = Inr [(''w'', [2])] \<and>
   returned_parameters (train late_regression_lib
      (ProductionTrainer_init late_regression_lib one_weight 0.001 32 3 15 42 False) zero_store)
     = Inr [(''w'', [3])]"
  by code_simp

subsection \<open>The history and the side-car\<close>

lemma update_training_state_history:
  assumes "update_training_state L tr epoch trl vll = (stop, tr')"
  shows "train_loss (history tr') = train_loss (history tr) @ [trl] \<and>
         val_loss (history tr') = val_loss (history tr) @ [vll]"
  using assms
  by (auto simp: update_training_state_def Let_def split: prod.splits if_splits)

text \<open>
  The loop appends to the history the losses of exactly the epochs it executes, in
  order.
\<close>

lemma train_loop_history:
  assumes "train_loop L k epoch (tr, h) = Inr (tr', h')"
  shows "train_loss (history tr') =
           train_loss (history tr) @ map fst (epoch_losses L k epoch (tr, h)) \<and>
         val_loss (history tr') =
           val_loss (history tr) @ map snd (epoch_losses L k epoch (tr, h))"
  using assms
proof (induction k arbitrary: epoch tr h)
  case 0
  then show ?case by simp
next
  case (Suc k)
  from Suc.prems obtain trl opt1 h1 vll where
    te: "train_epoch L (optimizer tr) h = Inr (trl, opt1, h1)" and
    ve: "validate_epoch L opt1 h1 = Inr vll"
    by (auto split: sum.splits)
  obtain stop tr2 where
    u: "update_training_state L (tr\<lparr>optimizer := opt1\<rparr>) epoch trl vll = (stop, tr2)"
    by (cases "update_training_state L (tr\<lparr>optimizer := opt1\<rparr>) epoch trl vll")
  from update_training_state_history[OF u]
  have h2: "train_loss (history tr2) = train_loss (history tr) @ [trl]"
    "val_loss (history tr2) = val_loss (history tr) @ [vll]"
    by simp_all
  show ?case
  proof (cases stop)
    case True
    with Suc.prems te ve u have "tr' = tr2" by simp
    with True te ve u h2 show ?thesis by simp
  next
    case False
    with Suc.prems te ve u have r: "train_loop L k (Suc epoch) (tr2, h1) = Inr (tr', h')"
      by simp
    from Suc.IH[OF r] h2 False te ve u show ?thesis by simp
  qed
qed

text \<open>
  In the side-car, \<^verbatim>\<open>finalTrainLoss\<close> and \<^verbatim>\<open>finalValLoss\<close> are the losses of the last
  executed epoch and \<^verbatim>\<open>epochs\<close> is the number of executed epochs; when early stopping
  halted the run, the last epoch did not improve on the best score, which an earlier
  epoch set.
\<close>

lemma metadata_reports_executed_epochs:
  assumes "train L (ProductionTrainer_init L mdl lr bs ep pat sd vb) h = Inr (tr, h')"
      and "ls = epoch_losses L (nat ep) 0 (ProductionTrainer_init L mdl lr bs ep pat sd vb, h)"
  shows "epochs_run (trainHistory (save_metadata tr name np isz)) = length ls \<and>
         finalTrainLoss (trainHistory (save_metadata tr name np isz)) =
           (if ls = [] then None else Some (fst (last ls))) \<and>
         finalValLoss (trainHistory (save_metadata tr name np isz)) =
           (if ls = [] then None else Some (snd (last ls))) \<and>
         (if should_stop (early_stopping tr) then halted_on_stale_epoch tr else True)"
proof -
  let ?t0 = "ProductionTrainer_init L mdl lr bs ep pat sd vb"
  from assms(1) obtain h1 where l: "train_loop L (nat ep) 0 (?t0, h) = Inr (tr, h1)"
    by (auto simp: train_def ProductionTrainer_init_def split: sum.splits prod.splits)
  have e: "train_loss (history ?t0) = []" "val_loss (history ?t0) = []"
    by (simp_all add: ProductionTrainer_init_def)
  from train_loop_history[OF l] e assms(2)
  have hist: "train_loss (history tr) = map fst ls" "val_loss (history tr) = map snd ls"
    by simp_all
  from train_loop_post[OF loop_inv_init l] have "loop_post tr" by simp
  with hist show ?thesis
    by (simp add: loop_post_def save_metadata_def last_map)
qed

text \<open>
  Claim C10: the side-car reports the losses of the last executed epoch and the number
  of executed epochs, so that after an early stop \<^verbatim>\<open>finalValLoss\<close> is the loss of the
  last, non-best epoch and differs from the best validation score of the restored
  checkpoint model that the artifact serializes.  The fields of the side-car are as the
  claim says, but the model is not: on the run with a late regression, with patience 1
  and at most ten epochs, three epochs run and the side-car reports the losses 1 and 1
  and 3 epochs, the best score is the 0 of the second epoch, and the model that \<^verbatim>\<open>train\<close>
  returns for serialization has the weight 3 of the last epoch, whose validation loss
  is the reported 1, not the weight 2 of the best epoch (the run with two epochs
  returns it).  The restore changes nothing, as for claim C1.
\<close>

theorem side_car_describes_serialized_last_epoch:
  "side_car (train late_regression_lib
      (ProductionTrainer_init late_regression_lib one_weight 0.001 32 10 1 42 False) zero_store)
     = Inr \<lparr>finalTrainLoss = Some 1, finalValLoss = Some 1, epochs_run = 3\<rparr> \<and>
   recorded_best (train late_regression_lib
      (ProductionTrainer_init late_regression_lib one_weight 0.001 32 10 1 42 False) zero_store)
     = Inr (Some 0, [1, 0, 1]) \<and>
   returned_parameters (train late_regression_lib
      (ProductionTrainer_init late_regression_lib one_weight 0.001 32 10 1 42 False) zero_store)
     = Inr [(''w'', [3])] \<and>
   returned_val_loss late_regression_lib (train late_regression_lib
      (ProductionTrainer_init late_regression_lib one_weight 0.001 32 10 1 42 False) zero_store)
     = Inr 1 \<and>
   returned_parameters (train late_regression_lib
      (ProductionTrainer_init late_regression_lib one_weight 0.001 32 2 1 42 False) zero_store)
     = Inr [(''w'', [2])]"
  by code_simp

section \<open>Properties of the normalization\<close>





















section \<open>Properties of the fallback explanation\<close>

text \<open>
  Claim C5: the fallback explanation of the input \<^verbatim>\<open>{"a": 10.0, "b": -5.0}\<close> for the model
  type \<^verbatim>\<open>waste_predictor\<close> has the expected value 15.0, carries the fallback flag (the key
  \<^verbatim>\<open>isMock\<close>) set to true, gives \<^verbatim>\<open>b\<close> the contribution 0.0, and its prediction is 15.0 plus
  the sum of the contributions of the features.
\<close>

theorem mock_explanation_example:
  "\<exists>r. generate_mock_explanation parse ''waste_predictor''
          (JObj [(''a'', JNum 10.0), (''b'', JNum (- 5.0))]) = Inr r \<and>
       expectedValue r = 15.0 \<and>
       isMock r = Some True \<and>
       map_of (zip (featureNames r) (shapValues r)) ''b'' = Some 0.0 \<and>
       prediction r = 15.0 + sum_list (shapValues r)"
  by (simp add: generate_mock_explanation_def mock_heuristic_def sorted_keys_def get_item_def
      dict_get_def py_float_def dict_set_def sorted_reverse_def input_value_def Let_def)

section \<open>Properties of the explanation engine\<close>

subsection \<open>Ranking of the result\<close>

lemma sequence_Inr_list_all2:
  assumes "sequence (map f xs) = Inr ys"
  shows "list_all2 (\<lambda>x y. f x = Inr y) xs ys"
  using assms by (induction xs arbitrary: ys) (auto split: sum.splits)

lemma sorted_reverse_descending:
  "sorted_wrt (\<lambda>a b. f a \<ge> f b) (sorted_reverse f xs)"
proof -
  have "sorted (map (\<lambda>x. - f x) (sort_key (\<lambda>x. - f x) xs))"
    by (rule sorted_sort_key)
  then show ?thesis by (simp add: sorted_reverse_def sorted_map)
qed

lemma distinct_sorted_reverse:
  "distinct (map fst (sorted_reverse f xs)) = distinct (map fst xs)"
proof -
  show ?thesis
    by (simp add: distinct_map sorted_reverse_def)
qed

lemma top_positive_descending:
  assumes "sorted_wrt (\<lambda>a b. \<bar>snd a\<bar> \<ge> \<bar>snd b\<bar>) (xs :: (string \<times> real) list)"
  shows "sorted_wrt (\<ge>) (map snd (take 5 (filter (\<lambda>(name, contrib). contrib > 0) xs)))"
proof -
  define ys where "ys = take 5 (filter (\<lambda>(name, contrib). contrib > 0) xs)"
  have s1: "sorted_wrt (\<lambda>a b. \<bar>snd a\<bar> \<ge> \<bar>snd b\<bar>) ys"
    unfolding ys_def using assms by (intro sorted_wrt_take sorted_wrt_filter)
  have pos: "0 < snd y" if "y \<in> set ys" for y
  proof -
    from that have m: "y \<in> set (filter (\<lambda>(name, contrib). contrib > 0) xs)"
      unfolding ys_def by (rule in_set_takeD)
    show ?thesis using m by (simp add: case_prod_unfold)
  qed
  have "sorted_wrt (\<lambda>a b. snd a \<ge> snd b) ys"
  proof (rule sorted_wrt_mono_rel[OF _ s1])
    fix x y
    assume "x \<in> set ys" "y \<in> set ys" "\<bar>snd y\<bar> \<le> \<bar>snd x\<bar>"
    with pos[of x] pos[of y] show "snd y \<le> snd x" by simp
  qed
  then show ?thesis by (simp add: sorted_wrt_map ys_def)
qed

lemma top_negative_ascending:
  assumes "sorted_wrt (\<lambda>a b. \<bar>snd a\<bar> \<ge> \<bar>snd b\<bar>) (xs :: (string \<times> real) list)"
  shows "sorted_wrt (\<le>) (map snd (take 5 (filter (\<lambda>(name, contrib). contrib < 0) xs)))"
proof -
  define ys where "ys = take 5 (filter (\<lambda>(name, contrib). contrib < 0) xs)"
  have s1: "sorted_wrt (\<lambda>a b. \<bar>snd a\<bar> \<ge> \<bar>snd b\<bar>) ys"
    unfolding ys_def using assms by (intro sorted_wrt_take sorted_wrt_filter)
  have neg: "snd y < 0" if "y \<in> set ys" for y
  proof -
    from that have m: "y \<in> set (filter (\<lambda>(name, contrib). contrib < 0) xs)"
      unfolding ys_def by (rule in_set_takeD)
    show ?thesis using m by (simp add: case_prod_unfold)
  qed
  have "sorted_wrt (\<lambda>a b. snd a \<le> snd b) ys"
  proof (rule sorted_wrt_mono_rel[OF _ s1])
    fix x y
    assume "x \<in> set ys" "y \<in> set ys" "\<bar>snd y\<bar> \<le> \<bar>snd x\<bar>"
    with neg[of x] neg[of y] show "snd x \<le> snd y" by simp
  qed
  then show ?thesis by (simp add: sorted_wrt_map ys_def)
qed

lemma distinct_dict_set:
  assumes "distinct (map fst d)"
  shows "distinct (map fst (dict_set d k v))"
proof -
  define g where "g = (\<lambda>(k' :: 'a, v' :: 'b). if k' = k then (k', v) else (k', v'))"
  have h: "map fst (map g d) = map fst d"
    by (induction d) (auto simp: g_def)
  have e: "dict_set d k v = (if k \<in> set (map fst d) then map g d else d @ [(k, v)])"
    by (simp add: dict_set_def g_def)
  show ?thesis
  proof (cases "k \<in> set (map fst d)")
    case True
    then have "map fst (dict_set d k v) = map fst d" by (simp only: e h if_True)
    with assms show ?thesis by simp
  next
    case False
    then have "map fst (dict_set d k v) = map fst d @ [k]" by (simp add: e)
    with assms False show ?thesis by simp
  qed
qed

lemma fill_waste_distinct:
  assumes "fill_waste parse input_data names acc = Inr c" and "distinct (map fst acc)"
  shows "distinct (map fst c)"
  using assms
  by (induction names arbitrary: acc) (auto split: sum.splits intro: distinct_dict_set)

lemma fill_linear_distinct:
  assumes "fill_linear parse coeff input_data names acc = Inr c" and "distinct (map fst acc)"
  shows "distinct (map fst c)"
  using assms
  by (induction names arbitrary: acc) (auto split: sum.splits intro: distinct_dict_set)

lemma disjoint_by_sign:
  assumes "distinct (map fst (xs :: (string \<times> real) list))"
  shows "set (map fst (take 5 (filter (\<lambda>(name, contrib). contrib > 0) xs))) \<inter>
         set (map fst (take 5 (filter (\<lambda>(name, contrib). contrib < 0) xs))) = {}"
proof -
  have "False" if "(n, c) \<in> set xs" "(n, c') \<in> set xs" "c > 0" "c' < 0" for n c c'
  proof -
    from assms that(1,2) have "c = c'" by (meson eq_key_imp_eq_value)
    with that(3,4) show False by simp
  qed
  then show ?thesis
    by (auto dest!: in_set_takeD)
qed

lemma mock_heuristic_distinct:
  assumes "mock_heuristic parse model_type_v input_data feature_names = Inr (baseline, contributions)"
  shows "distinct (map fst contributions)"
  using assms
  by (auto simp: mock_heuristic_def split: if_splits sum.splits
      dest: fill_waste_distinct fill_linear_distinct)

text \<open>
  On the fallback path the importance list is sorted by descending absolute
  contribution, each of the two lists of top contributors has at most five entries, the
  two lists name different features, the positive list is ordered by descending and
  the negative list by ascending contribution.
\<close>

lemma mock_explanation_ranked:
  assumes "generate_mock_explanation parse model_type_v input_data = Inr r"
  shows "sorted_wrt (\<ge>) (map (\<lambda>(name, imp, v). imp) (featureImportance r)) \<and>
         length (positive r) \<le> 5 \<and> length (negative r) \<le> 5 \<and>
         set (map fst (positive r)) \<inter> set (map fst (negative r)) = {} \<and>
         sorted_wrt (\<ge>) (map snd (positive r)) \<and>
         sorted_wrt (\<le>) (map snd (negative r))"
proof -
  from assms obtain feature_names where k: "sorted_keys input_data = Inr feature_names"
    by (auto simp: generate_mock_explanation_def split: sum.splits)
  from assms k obtain baseline contributions where
    f: "mock_heuristic parse model_type_v input_data feature_names = Inr (baseline, contributions)"
    by (auto simp: generate_mock_explanation_def split: sum.splits)
  define sc where "sc = sorted_reverse (\<lambda>x. \<bar>snd x\<bar>) contributions"
  from assms k f obtain shap_vals where
    v: "sequence (map (dict_get contributions) feature_names) = Inr shap_vals"
    by (auto simp: generate_mock_explanation_def Let_def split: sum.splits)
  from assms k f v obtain importance where
    i: "sequence (map (\<lambda>(name, contrib).
                        case input_value parse input_data name of
                          Inl e \<Rightarrow> Inl e
                        | Inr v \<Rightarrow> Inr (name, \<bar>contrib\<bar>, v)) sc) = Inr importance"
    unfolding sc_def
    by (auto simp: generate_mock_explanation_def Let_def split: sum.splits)
  from assms k f v i have r: "featureImportance r = importance"
       "positive r = take 5 (filter (\<lambda>(name, contrib). contrib > 0) sc)"
       "negative r = take 5 (filter (\<lambda>(name, contrib). contrib < 0) sc)"
    unfolding sc_def
    by (auto simp: generate_mock_explanation_def Let_def)
  have d: "distinct (map fst contributions)"
    by (rule mock_heuristic_distinct[OF f])
  have s: "sorted_wrt (\<lambda>a b. \<bar>snd a\<bar> \<ge> \<bar>snd b\<bar>) sc"
    unfolding sc_def by (rule sorted_reverse_descending)
  have "list_all2 (\<lambda>x y. (\<lambda>(name, imp, v). imp) y = \<bar>snd x\<bar>) sc importance"
    using sequence_Inr_list_all2[OF i]
    by (rule list_all2_mono) (auto split: sum.splits)
  then have "map (\<lambda>(name, imp, v). imp) importance = map (\<lambda>x. \<bar>snd x\<bar>) sc"
    by (induction rule: list_all2_induct) auto
  with s have a: "sorted_wrt (\<ge>) (map (\<lambda>(name, imp, v). imp) (featureImportance r))"
    by (simp add: r sorted_wrt_map)
  have b: "set (map fst (positive r)) \<inter> set (map fst (negative r)) = {}"
    unfolding r by (rule disjoint_by_sign) (simp add: sc_def distinct_sorted_reverse d)
  from a b top_positive_descending[OF s] top_negative_ascending[OF s] show ?thesis
    by (simp add: r)
qed

lemma contributors_member:
  assumes "contributors feature_names flat keep = Inr cs" and "c \<in> set cs"
  shows "\<exists>i. i < length feature_names \<and> i < length flat \<and> keep (flat ! i) \<and>
             c = (feature_names ! i, flat ! i)"
proof -
  define f where "f = (\<lambda>i. case list_get feature_names i of
                           Inl e \<Rightarrow> Inl e
                         | Inr name \<Rightarrow> Inr (name, flat ! i))"
  define idx where "idx = filter (\<lambda>i. keep (flat ! i)) [0..<length flat]"
  from assms(1) have "sequence (map f idx) = Inr cs"
    by (simp add: contributors_def f_def idx_def)
  then have "list_all2 (\<lambda>i y. f i = Inr y) idx cs"
    by (rule sequence_Inr_list_all2)
  then have len: "length idx = length cs" and nth: "\<And>n. n < length cs \<Longrightarrow> f (idx ! n) = Inr (cs ! n)"
    by (simp_all add: list_all2_conv_all_nth)
  from assms(2) obtain n where n: "n < length cs" "cs ! n = c"
    by (auto simp: in_set_conv_nth)
  define i where "i = idx ! n"
  have i: "i \<in> set idx" "f i = Inr c"
    using n len nth[of n] by (simp_all add: i_def)
  from i(1) have "i < length flat" "keep (flat ! i)"
    by (simp_all add: idx_def)
  moreover from i(2) have "i < length feature_names" "c = (feature_names ! i, flat ! i)"
    by (auto simp: f_def list_get_def split: if_splits)
  ultimately show ?thesis by blast
qed

text \<open>
  On the primary path the importance list is sorted by descending absolute attribution,
  each of the two lists has at most five entries and, for distinct feature names, the two
  lists name different features.  Nothing orders the two lists by contribution.
\<close>

lemma shap_result_ranked:
  assumes "shap_result parse predict_fn input_data feature_names input_array ev flat = Inr r"
  shows "sorted_wrt (\<ge>) (map (\<lambda>(name, imp, v). imp) (featureImportance r)) \<and>
         length (positive r) \<le> 5 \<and> length (negative r) \<le> 5 \<and>
         (if distinct feature_names
          then set (map fst (positive r)) \<inter> set (map fst (negative r)) = {} else True)"
proof -
  from assms obtain feature_importance where
    fi: "fill_importance flat (enumerate 0 feature_names) [] = Inr feature_importance"
    by (auto simp: shap_result_def split: sum.splits)
  define si where "si = sorted_reverse snd feature_importance"
  from assms fi obtain out pred where
    o: "predict_fn (Mat input_array) = Inr out" "list_get (concat out) 0 = Inr pred"
    by (auto simp: shap_result_def Let_def split: sum.splits)
  from assms fi o obtain entries where
    e: "sequence (map (\<lambda>(name, imp).
                    case input_value parse input_data name of
                      Inl e \<Rightarrow> Inl e
                    | Inr v \<Rightarrow> Inr (name, imp, v)) si) = Inr entries"
    unfolding si_def
    by (auto simp: shap_result_def Let_def split: sum.splits)
  from assms fi o e obtain pos neg where
    p: "contributors feature_names flat (\<lambda>v. v > 0) = Inr pos"
       "contributors feature_names flat (\<lambda>v. v < 0) = Inr neg"
    unfolding si_def
    by (auto simp: shap_result_def Let_def split: sum.splits)
  from assms fi o e p have r: "featureImportance r = entries"
      "positive r = take 5 pos" "negative r = take 5 neg"
    unfolding si_def
    by (auto simp: shap_result_def Let_def)
  have s: "sorted_wrt (\<lambda>a b. snd a \<ge> snd b) si"
    unfolding si_def by (rule sorted_reverse_descending)
  have "list_all2 (\<lambda>x y. (\<lambda>(name, imp, v). imp) y = snd x) si entries"
    using sequence_Inr_list_all2[OF e]
    by (rule list_all2_mono) (auto split: sum.splits)
  then have "map (\<lambda>(name, imp, v). imp) entries = map snd si"
    by (induction rule: list_all2_induct) auto
  with s have a: "sorted_wrt (\<ge>) (map (\<lambda>(name, imp, v). imp) (featureImportance r))"
    by (simp add: r sorted_wrt_map)
  have d: "set (map fst (positive r)) \<inter> set (map fst (negative r)) = {}"
    if dn: "distinct feature_names"
  proof -
    have False if "c \<in> set pos" "c' \<in> set neg" "fst c = fst c'" for c c'
    proof -
      from contributors_member[OF p(1) that(1)] obtain i where
        i: "i < length feature_names" "flat ! i > 0" "c = (feature_names ! i, flat ! i)"
        by blast
      from contributors_member[OF p(2) that(2)] obtain j where
        j: "j < length feature_names" "flat ! j < 0" "c' = (feature_names ! j, flat ! j)"
        by blast
      from that(3) i(3) j(3) have "feature_names ! i = feature_names ! j" by simp
      with dn i(1) j(1) have "i = j" by (simp add: nth_eq_iff_index_eq)
      with i(2) j(2) show False by simp
    qed
    then have "set (map fst pos) \<inter> set (map fst neg) = {}" by auto
    moreover have "set (map fst (take 5 pos)) \<subseteq> set (map fst pos)"
      "set (map fst (take 5 neg)) \<subseteq> set (map fst neg)"
      by (auto dest: in_set_takeD)
    ultimately show ?thesis unfolding r by blast
  qed
  from a d show ?thesis by (simp add: r)
qed

text \<open>
  Claim C6: on both paths the ranked importance list is sorted by descending absolute
  attribution and the lists of top positive and negative contributors have at most five
  entries, are disjoint and are ordered by signed contribution.  On the primary path
  the code does not order the two lists: they are the first five features, in the order
  of the sorted feature names, with a positive (negative) attribution.  For the linear
  model and the input \<^verbatim>\<open>{"a": 1, "b": 5, "c": 3}\<close> the attributions are 0.1, 0.5 and 0.3,
  and the positive list is a, b, c with the contributions 0.1, 0.5, 0.3: neither
  descending nor ascending.  The fallback path takes both lists from the sorted
  contributions.
\<close>

theorem shap_top_contributors_unordered: \<open>
   main linear_env (cli ''waste_predictor'' ''{"a": 1, "b": 5, "c": 3}'') =
     (ResultJson
        \<lparr>featureNames = [''a'', ''b'', ''c''],
         shapValues = [1 / 10, 1 / 2, 3 / 10],
         expectedValue = 0,
         prediction = 9 / 10,
         featureImportance = [(''b'', 1 / 2, 5), (''c'', 3 / 10, 3), (''a'', 1 / 10, 1)],
         positive = [(''a'', 1 / 10), (''b'', 1 / 2), (''c'', 3 / 10)],
         negative = [],
         isMock = None\<rparr> ''waste_predictor'' ''model.onnx'', 0) \<and>
   \<not> sorted_wrt (\<ge>) (map snd [(''a'', 1 / 10 :: real), (''b'', 1 / 2), (''c'', 3 / 10)]) \<and>
   \<not> sorted_wrt (\<le>) (map snd [(''a'', 1 / 10 :: real), (''b'', 1 / 2), (''c'', 3 / 10)])\<close>
  by code_simp

subsection \<open>Failures of the primary path\<close>

lemma attribution_failure_gives_error_pair:
  assumes "shap_input_array (parse_float env) input_data = Inr (feature_names, input_array)"
      and "create_prediction_function env session_opt = Inr predict_fn"
      and "attribution env predict_fn (default_background bg (length feature_names)) input_array = Inl e"
  shows "generate_shap_explanation env session_opt input_data bg = Inr (None, Some (str_exn e))"
  using assms by (simp add: generate_shap_explanation_def Let_def)

lemma main_error_exit:
  assumes "main_body env a = Inl e"
  shows "\<exists>msg. main env a = (ErrorJson msg, 1)"
  using assms by (cases e) (simp_all add: main_def)

text \<open>
  Claim C2, as stated: whenever the primary path raises, at model loading, input-array
  construction, attribution or result assembly, the engine returns the explanation of
  the fallback path and the exception is not surfaced.  It fails at model loading: with a
  model file that the runtime rejects, \<^verbatim>\<open>main\<close> prints an error object and exits with
  status 1, although the fallback explanation of the same input exists.
\<close>

theorem model_load_failure_is_surfaced: \<open>
  load_onnx_model corrupt_model_env ''model.onnx'' = Inl (RuntimeError ''INVALID_PROTOBUF'') \<and>
  main corrupt_model_env (cli ''waste_predictor'' ''{"a": 10}'') = (ErrorJson ''Explanation failed: INVALID_PROTOBUF'', 1) \<and>
  generate_mock_explanation (parse_float corrupt_model_env) ''waste_predictor'' (JObj [(''a'', JNum 10)]) =
    Inr \<lparr>featureNames = [''a''], shapValues = [0.1], expectedValue = 15,
      prediction = 15.1, featureImportance = [(''a'', 0.1, 10)],
      positive = [(''a'', 0.1)], negative = [], isMock = Some True\<rparr>\<close>
  by code_simp

text \<open>
  Claim C2, amended: with the primary path available and the input parsed, whenever the
  attribution step (constructing the explainer or computing the SHAP values) raises, the
  engine discards the partial result and returns what the fallback path returns for the
  same input; that exception is not surfaced.  An exception raised by model loading, or
  raised by \<^verbatim>\<open>generate_shap_explanation\<close> outside the attribution step (input-array
  construction, creating the prediction function, reading the expected value, assembling
  the result), is reported as an error object with exit status 1.
\<close>

theorem attribution_failure_falls_back:
  assumes "SHAP_AVAILABLE env" and "ONNX_AVAILABLE env" and "path_exists env (arg_model_path a)"
      and "json_loads env (arg_input_data a) = Inr input_data"
  shows "(\<forall>session feature_names input_array predict_fn e.
            InferenceSession env (arg_model_path a) = Inr session \<and>
            shap_input_array (parse_float env) input_data = Inr (feature_names, input_array) \<and>
            create_prediction_function env (Some session) = Inr predict_fn \<and>
            attribution env predict_fn
              (default_background (background_arg env a) (length feature_names)) input_array = Inl e
            \<longrightarrow> main_body env a =
                  generate_mock_explanation (parse_float env) (arg_model_type a) input_data) \<and>
         (\<forall>e. load_onnx_model env (arg_model_path a) = Inl e
            \<longrightarrow> (\<exists>msg. main env a = (ErrorJson msg, 1))) \<and>
         (\<forall>session_opt e.
            load_onnx_model env (arg_model_path a) = Inr session_opt \<and>
            generate_shap_explanation env session_opt input_data (background_arg env a) = Inl e
            \<longrightarrow> (\<exists>msg. main env a = (ErrorJson msg, 1)))"
proof (intro conjI allI impI)
  fix session feature_names input_array predict_fn e
  assume h: "InferenceSession env (arg_model_path a) = Inr session \<and>
            shap_input_array (parse_float env) input_data = Inr (feature_names, input_array) \<and>
            create_prediction_function env (Some session) = Inr predict_fn \<and>
            attribution env predict_fn
              (default_background (background_arg env a) (length feature_names)) input_array = Inl e"
  then have "generate_shap_explanation env (Some session) input_data (background_arg env a)
      = Inr (None, Some (str_exn e))"
    by (simp add: attribution_failure_gives_error_pair)
  moreover from h assms(2) have "load_onnx_model env (arg_model_path a) = Inr (Some session)"
    by (simp add: load_onnx_model_def)
  ultimately have "primary_path env a input_data = Inr None"
    using assms(1-3) by (simp add: primary_path_def Let_def)
  then show "main_body env a =
      generate_mock_explanation (parse_float env) (arg_model_type a) input_data"
    using assms(4) by (simp add: main_body_def)
next
  fix e
  assume "load_onnx_model env (arg_model_path a) = Inl e"
  then have "primary_path env a input_data = Inl e"
    using assms(1-3) by (simp add: primary_path_def)
  then have "main_body env a = Inl e"
    using assms(4) by (simp add: main_body_def)
  then show "\<exists>msg. main env a = (ErrorJson msg, 1)" by (rule main_error_exit)
next
  fix session_opt e
  assume "load_onnx_model env (arg_model_path a) = Inr session_opt \<and>
            generate_shap_explanation env session_opt input_data (background_arg env a) = Inl e"
  then have "primary_path env a input_data = Inl e"
    using assms(1-3) by (simp add: primary_path_def Let_def)
  then have "main_body env a = Inl e"
    using assms(4) by (simp add: main_body_def)
  then show "\<exists>msg. main env a = (ErrorJson msg, 1)" by (rule main_error_exit)
qed

theorem attribution_failure_falls_back_witness: \<open>
   SHAP_AVAILABLE failing_explainer_env \<and> ONNX_AVAILABLE failing_explainer_env \<and>
   path_exists failing_explainer_env (arg_model_path (cli ''waste_predictor'' ''{"a": 10}'')) \<and>
   json_loads failing_explainer_env (arg_input_data (cli ''waste_predictor'' ''{"a": 10}'')) =
     Inr (JObj [(''a'', JNum 10)]) \<and>
   attribution failing_explainer_env (predict failing_explainer_env () ''input'')
     (default_background (background_arg failing_explainer_env (cli ''waste_predictor'' ''{"a": 10}''))
        (length [''a''])) [[10]] = Inl (ValueError ''Singular matrix'') \<and>
   main_body failing_explainer_env (cli ''waste_predictor'' ''{"a": 10}'') =
     generate_mock_explanation (parse_float failing_explainer_env) ''waste_predictor''
       (JObj [(''a'', JNum 10)]) \<and>
   main failing_explainer_env (cli ''waste_predictor'' ''{"a": 10}'') =
     (ResultJson
        \<lparr>featureNames = [''a''], shapValues = [1 / 10], expectedValue = 15,
         prediction = 151 / 10, featureImportance = [(''a'', 1 / 10, 10)],
         positive = [(''a'', 1 / 10)], negative = [], isMock = Some True\<rparr>
        ''waste_predictor'' ''model.onnx'', 0)\<close>
proof -
  let ?env = failing_explainer_env
  let ?a = \<open>cli ''waste_predictor'' ''{"a": 10}''\<close>
  have h1: "SHAP_AVAILABLE ?env" and h2: "ONNX_AVAILABLE ?env"
    by (simp_all add: failing_explainer_env_def linear_env_def)
  have h3: "path_exists ?env (arg_model_path ?a)"
    by (simp add: failing_explainer_env_def linear_env_def cli_def)
  have h4: "json_loads ?env (arg_input_data ?a) = Inr (JObj [(''a'', JNum 10)])"
    by code_simp
  have s1: "InferenceSession ?env (arg_model_path ?a) = Inr ()"
    by (simp add: failing_explainer_env_def linear_env_def)
  have s2: "shap_input_array (parse_float ?env) (JObj [(''a'', JNum 10)]) = Inr ([''a''], [[10]])"
    by code_simp
  have s3: "create_prediction_function ?env (Some ()) = Inr (predict ?env () ''input'')"
    by (simp add: create_prediction_function_def list_get_def failing_explainer_env_def
        linear_env_def)
  have s4: "attribution ?env (predict ?env () ''input'')
     (default_background (background_arg ?env ?a) (length [''a''])) [[10]] =
       Inl (ValueError ''Singular matrix'')"
    by (simp add: attribution_def failing_explainer_env_def linear_env_def)
  have m: "main ?env ?a =
     (ResultJson
        \<lparr>featureNames = [''a''], shapValues = [1 / 10], expectedValue = 15,
         prediction = 151 / 10, featureImportance = [(''a'', 1 / 10, 10)],
         positive = [(''a'', 1 / 10)], negative = [], isMock = Some True\<rparr>
        ''waste_predictor'' ''model.onnx'', 0)"
    by code_simp
  have "main_body ?env ?a =
     generate_mock_explanation (parse_float ?env) (arg_model_type ?a) (JObj [(''a'', JNum 10)])"
    using attribution_failure_falls_back [OF h1 h2 h3 h4, THEN conjunct1, rule_format,
        of "()" "[''a'']" "[[10]]" "predict ?env () ''input''" "ValueError ''Singular matrix''"]
      s1 s2 s3 s4 by blast
  then have b: "main_body ?env ?a =
     generate_mock_explanation (parse_float ?env) ''waste_predictor'' (JObj [(''a'', JNum 10)])"
    by (simp add: cli_def)
  from h1 h2 h3 h4 s4 b m show ?thesis by blast
qed

text \<open>
  Claim C9: on malformed input JSON the entry point prints a JSON object with the key
  \<^verbatim>\<open>error\<close> and exits with a non-zero status; on every other failure of the body of
  \<^verbatim>\<open>main\<close> it does the same; when nothing fails it prints a result without that key and
  the status is 0.
\<close>

theorem main_reports_structured_errors:
  "(isl (json_loads env (arg_input_data a)) \<longrightarrow>
      ''error'' \<in> set (json_keys (fst (main env a))) \<and> snd (main env a) = 1) \<and>
   (isl (main_body env a) \<longrightarrow>
      ''error'' \<in> set (json_keys (fst (main env a))) \<and> snd (main env a) = 1) \<and>
   (\<not> isl (main_body env a) \<longrightarrow>
      ''error'' \<notin> set (json_keys (fst (main env a))) \<and> snd (main env a) = 0)"
proof -
  have a: "isl (json_loads env (arg_input_data a)) \<Longrightarrow> isl (main_body env a)"
    by (auto simp: main_body_def isl_def)
  have b: "''error'' \<in> set (json_keys (fst (main env a))) \<and> snd (main env a) = 1"
    if "isl (main_body env a)"
  proof -
    from that obtain e where "main_body env a = Inl e" by (auto simp: isl_def)
    from main_error_exit[OF this] show ?thesis by auto
  qed
  have c: "''error'' \<notin> set (json_keys (fst (main env a))) \<and> snd (main env a) = 0"
    if "\<not> isl (main_body env a)"
  proof -
    from that obtain r where "main_body env a = Inr r" by (cases "main_body env a") auto
    then show ?thesis by (auto simp: main_def split: option.splits)
  qed
  from a b c show ?thesis by blast
qed

theorem main_reports_structured_errors_witness: \<open>
   isl (json_loads linear_env (arg_input_data (cli ''waste_predictor'' ''{"a": 10''))) \<and>
   main linear_env (cli ''waste_predictor'' ''{"a": 10'') =
     (ErrorJson ''Invalid JSON input: Expecting value: line 1 column 1 (char 0)'', 1) \<and>
   ''error'' \<in> set (json_keys (fst (main linear_env (cli ''waste_predictor'' ''{"a": 10'')))) \<and>
   snd (main linear_env (cli ''waste_predictor'' ''{"a": 10'')) = 1\<close>
proof -
  have h: \<open>isl (json_loads linear_env (arg_input_data (cli ''waste_predictor'' ''{"a": 10'')))\<close>
    by code_simp
  have m: \<open>main linear_env (cli ''waste_predictor'' ''{"a": 10'') =
     (ErrorJson ''Invalid JSON input: Expecting value: line 1 column 1 (char 0)'', 1)\<close>
    by code_simp
  show ?thesis
    using h m main_reports_structured_errors [of linear_env \<open>cli ''waste_predictor'' ''{"a": 10''\<close>] by simp
qed

subsection \<open>The input of the scoring function\<close>

lemma sequence_map_Inr:
  assumes "list_all (\<lambda>x. f x = Inr (g x)) xs"
  shows "sequence (map f xs) = Inr (map g xs)"
  using assms by (induction xs) auto

lemma input_value_numeric_record:
  assumes "k \<in> set (map fst kvs)"
  shows "input_value parse (numeric_record kvs) k =
         Inr (case map_of kvs k of None \<Rightarrow> 0 | Some x \<Rightarrow> x)"
proof -
  have "map_of (map (\<lambda>(k, x). (k, JNum x)) kvs) k = map_option JNum (map_of kvs k)"
    by (induction kvs) auto
  moreover from assms obtain x where "map_of kvs k = Some x"
    by (metis list.set_map map_of_eq_None_iff not_Some_eq)
  ultimately show ?thesis
    by (simp add: input_value_def get_item_def numeric_record_def dict_get_def py_float_def)
qed

lemma shap_input_array_numeric_record:
  "shap_input_array parse (numeric_record kvs) = Inr (sort (map fst kvs), [raw_row kvs])"
proof -
  have k: "sorted_keys (numeric_record kvs) = Inr (sort (map fst kvs))"
    by (simp add: sorted_keys_def numeric_record_def comp_def case_prod_unfold)
  have "list_all (\<lambda>k. input_value parse (numeric_record kvs) k =
           Inr (case map_of kvs k of None \<Rightarrow> 0 | Some x \<Rightarrow> x)) (sort (map fst kvs))"
    using input_value_numeric_record by (simp add: list_all_iff del: set_map)
  from sequence_map_Inr[OF this] k show ?thesis
    by (simp add: shap_input_array_def raw_row_def)
qed

lemma two_row_statistics:
  "np_mean [3, 7] = 5 \<and> np_var [3, 7] = 4 \<and> fl64 2 = 2 \<and> clamp_std 2 = 2"
  by code_simp

lemma norm_params_example:
  "snd (normalize_features [[3], [7]]) = \<lparr>means = [5], stds = [2]\<rparr>"
proof -
  have c: "column [[3], [7]] 0 = [3, 7]"
    by (simp add: column_def)
  have u: "[0..<ncols [[3], [7]]] = [0]"
    by (simp add: ncols_def)
  have s: "np_std (column [[3], [7]] 0) = 2"
    using two_row_statistics by (simp add: np_std_def c)
  have m: "np_mean (column [[3], [7]] 0) = 5"
    using two_row_statistics by (simp add: c)
  show ?thesis
    using two_row_statistics by (simp add: normalize_features_def Let_def u s m)
qed

lemma raw_scoring_example: \<open>
   zscore [5] [2] [10] = [Some (5 / 2)] \<and>
   shap_input_array (parse_float linear_env) (JObj [(''a'', JNum 10)]) = Inr ([''a''], [[10]]) \<and>
   predict linear_env () ''input'' (Mat [[10]]) = Inr [[1]] \<and>
   predict linear_env () ''input'' (Mat [[5 / 2]]) = Inr [[1 / 4]] \<and>
   main linear_env (cli ''waste_predictor'' ''{"a": 10}'') =
     (ResultJson
        \<lparr>featureNames = [''a''], shapValues = [1], expectedValue = 0, prediction = 1,
         featureImportance = [(''a'', 1, 10)], positive = [(''a'', 1)], negative = [],
         isMock = None\<rparr> ''waste_predictor'' ''model.onnx'', 0)\<close>
  by code_simp

text \<open>
  Claim C3, as stated: on the primary path the values passed to the scoring function of
  the compiled model are the input values transformed by the normalization parameters
  persisted with the model.  It fails: for a model trained on the column 3, 7 (mean 5,
  deviation 2) the input \<^verbatim>\<open>{"a": 10}\<close> normalizes to 2.5, but the array built for the
  explainer and the prediction function is 10, and the reported prediction 1 is the
  score of the model at 10, not its score 0.25 at 2.5.
\<close>

theorem explanation_scores_unnormalized_input: \<open>
   snd (normalize_features [[3], [7]]) = \<lparr>means = [5], stds = [2]\<rparr> \<and>
   zscore [5] [2] [10] = [Some (5 / 2)] \<and>
   shap_input_array (parse_float linear_env) (JObj [(''a'', JNum 10)]) = Inr ([''a''], [[10]]) \<and>
   predict linear_env () ''input'' (Mat [[10]]) = Inr [[1]] \<and>
   predict linear_env () ''input'' (Mat [[5 / 2]]) = Inr [[1 / 4]] \<and>
   main linear_env (cli ''waste_predictor'' ''{"a": 10}'') =
     (ResultJson
        \<lparr>featureNames = [''a''], shapValues = [1], expectedValue = 0, prediction = 1,
         featureImportance = [(''a'', 1, 10)], positive = [(''a'', 1)], negative = [],
         isMock = None\<rparr> ''waste_predictor'' ''model.onnx'', 0)\<close>
  using norm_params_example raw_scoring_example by blast

text \<open>
  Claim C3, amended: for every record of named numbers explained on the primary path, the
  array built for the explainer and the prediction function holds the input values
  themselves, in the order of the sorted feature names, and the reported prediction is
  the first output of the scoring function on that array; no normalization parameters
  are read or applied.
\<close>

theorem explanation_scores_raw_input:
  "shap_input_array (parse_float env) (numeric_record kvs) = Inr (sort (map fst kvs), [raw_row kvs]) \<and>
   (\<forall>session bg r err.
      generate_shap_explanation env (Some session) (numeric_record kvs) bg = Inr (Some r, err) \<longrightarrow>
      (\<exists>input_name out.
         predict env session input_name (Mat [raw_row kvs]) = Inr out \<and>
         list_get (concat out) 0 = Inr (prediction r)))"
proof (intro conjI allI impI)
  show "shap_input_array (parse_float env) (numeric_record kvs) = Inr (sort (map fst kvs), [raw_row kvs])"
    by (rule shap_input_array_numeric_record)
next
  fix session bg r err
  assume g: "generate_shap_explanation env (Some session) (numeric_record kvs) bg = Inr (Some r, err)"
  then obtain predict_fn where
    c: "create_prediction_function env (Some session) = Inr predict_fn"
    by (auto simp: generate_shap_explanation_def shap_input_array_numeric_record Let_def
        split: sum.splits)
  then obtain input_name where p: "predict_fn = predict env session input_name"
    by (auto simp: create_prediction_function_def split: sum.splits)
  from g c obtain ev flat where
    "shap_result (parse_float env) predict_fn (numeric_record kvs) (sort (map fst kvs))
       [raw_row kvs] ev flat = Inr r"
    by (auto simp: generate_shap_explanation_def shap_input_array_numeric_record Let_def
        split: sum.splits prod.splits)
  then obtain out where "predict_fn (Mat [raw_row kvs]) = Inr out"
    and "list_get (concat out) 0 = Inr (prediction r)"
    by (auto simp: shap_result_def Let_def split: sum.splits)
  with p show "\<exists>input_name out.
         predict env session input_name (Mat [raw_row kvs]) = Inr out \<and>
         list_get (concat out) 0 = Inr (prediction r)"
    by blast
qed

theorem explanation_scores_raw_input_witness: \<open>
   generate_shap_explanation linear_env (Some ()) (numeric_record [(''a'', 10)]) None =
     Inr (Some \<lparr>featureNames = [''a''], shapValues = [1], expectedValue = 0, prediction = 1,
         featureImportance = [(''a'', 1, 10)], positive = [(''a'', 1)], negative = [],
         isMock = None\<rparr>, None) \<and>
   raw_row [(''a'', 10)] = [10] \<and>
   (\<exists>input_name out.
      predict linear_env () input_name (Mat [[10]]) = Inr out \<and> list_get (concat out) 0 = Inr 1)\<close>
proof -
  have g: "generate_shap_explanation linear_env (Some ()) (numeric_record [(''a'', 10)]) None =
     Inr (Some \<lparr>featureNames = [''a''], shapValues = [1], expectedValue = 0, prediction = 1,
         featureImportance = [(''a'', 1, 10)], positive = [(''a'', 1)], negative = [],
         isMock = None\<rparr>, None)"
    by code_simp
  have r: "raw_row [(''a'', 10)] = [10]"
    by code_simp
  from explanation_scores_raw_input [of linear_env "[(''a'', 10)]", THEN conjunct2, rule_format, OF g] g r
  show ?thesis by simp
qed
end
